theory Spec2Isabelle
  imports Main
begin

section \<open>Python values, strings and the HTTP boundary\<close>

text \<open>
  The two scripts, \<^verbatim>\<open>scripts/consume_from_registry.py\<close> (discovery) and
  \<^verbatim>\<open>scripts/publish_server_rest.py\<close> (publication), are sequences of HTTP calls
  and console prints. They are embedded as state transformers over a log: the list of
  requests handed to the \<^verbatim>\<open>requests\<close> library so far and the list of messages
  printed so far. An exception is the \<open>Inl\<close> branch of the result.

  A Python \<^verbatim>\<open>str\<close> is represented by its UTF-8 bytes (\<open>string\<close>); lengths and
  iteration of a text therefore count bytes, which is Python's count for ASCII text.
  Decoded JSON is the datatype \<open>json\<close>; a JSON number is an integer here (floats are
  never computed with by the scripts). An object keeps its keys in order, and a key
  is looked up by its first entry.
\<close>

datatype json =
    JNull
  | JBool bool
  | JNum int
  | JStr string
  | JArr "json list"
  | JObj "(string \<times> json) list"

text \<open>
  The exceptions the scripts can meet. \<open>HTTPError c\<close> is what
  \<^verbatim>\<open>response.raise_for_status()\<close> raises, with the status code of its response.
  \<open>RequestFailed\<close> is any other \<^verbatim>\<open>requests\<close> exception of a call that got no
  response (connection refused, timeout). \<open>BodyNotJSON\<close> is raised by
  \<^verbatim>\<open>response.json()\<close> on a body that is not JSON. \<open>ShapeError\<close> stands for the
  \<^verbatim>\<open>AttributeError\<close>, \<^verbatim>\<open>TypeError\<close> or \<^verbatim>\<open>KeyError\<close> raised when decoded
  JSON does not have the shape an access expects; no handler of the scripts tells
  these three apart. \<open>FileError\<close> is a descriptor file that cannot be opened or
  parsed, \<open>InvalidDescriptor\<close> whatever \<^verbatim>\<open>jsonschema.validate\<close> raises.
\<close>

datatype error =
    HTTPError int
  | RequestFailed
  | BodyNotJSON
  | ShapeError
  | FileError
  | InvalidDescriptor

datatype verb = GET | POST | PUT

record request =
  meth :: verb
  url :: string
  params :: "(string \<times> json) list"
  headers :: "(string \<times> string) list"
  payload :: "json option"
  time_limit :: "nat option"

record response =
  status_code :: int
  body :: "json option"

text \<open>
  What a call of \<^verbatim>\<open>requests.get/post/put\<close> comes back with: no response at all, or
  a response with its status code and its body (\<open>None\<close> when the body is not JSON).
  The registry is outside the scripts: it is any function from the requests made so
  far and the present request to a reply.
\<close>

datatype reply = NoReply | Reply response

type_synonym net = "request list \<Rightarrow> request \<Rightarrow> reply"

text \<open>
  A console message is kept as the text of its template (decoration and emoji left
  out) and the values interpolated into it; the error report of the discovery
  driver keeps the exception.
\<close>

datatype event = Say string "json list" | ErrorReport error

record log =
  sent :: "request list"
  out :: "event list"

definition start :: log where
  "start = \<lparr>sent = [], out = []\<rparr>"

type_synonym 'a prog = "log \<Rightarrow> (error + 'a) \<times> log"

definition ret :: "'a \<Rightarrow> 'a prog" where
  "ret x s = (Inr x, s)"

definition throw :: "error \<Rightarrow> 'a prog" where
  "throw e s = (Inl e, s)"

definition bnd :: "'a prog \<Rightarrow> ('a \<Rightarrow> 'b prog) \<Rightarrow> 'b prog" where
  "bnd m f s = (case m s of (Inl e, s') \<Rightarrow> (Inl e, s') | (Inr x, s') \<Rightarrow> f x s')"

definition lift :: "error + 'a \<Rightarrow> 'a prog" where
  "lift r s = (r, s)"

definition emit :: "event list \<Rightarrow> unit prog" where
  "emit es s = (Inr (), s\<lparr>out := out s @ es\<rparr>)"

text \<open>\<^verbatim>\<open>try: m  except requests.exceptions.HTTPError as e: h(e.response.status_code)\<close>\<close>

definition catch_http :: "'a prog \<Rightarrow> (int \<Rightarrow> 'a prog) \<Rightarrow> 'a prog" where
  "catch_http m h s =
     (case m s of
        (Inl (HTTPError c), s') \<Rightarrow> h c s'
      | (r, s') \<Rightarrow> (r, s'))"

fun for_each :: "'a list \<Rightarrow> ('a \<Rightarrow> unit prog) \<Rightarrow> unit prog" where
  "for_each [] f = ret ()"
| "for_each (x # xs) f = bnd (f x) (\<lambda>_. for_each xs f)"

definition send :: "net \<Rightarrow> request \<Rightarrow> response prog" where
  "send n r s =
     (case n (sent s) r of
        NoReply \<Rightarrow> (Inl RequestFailed, s\<lparr>sent := sent s @ [r]\<rparr>)
      | Reply resp \<Rightarrow> (Inr resp, s\<lparr>sent := sent s @ [r]\<rparr>))"

text \<open>
  \<^verbatim>\<open>Response.raise_for_status\<close> of the \<^verbatim>\<open>requests\<close> library raises for the
  client errors (400 to 499) and the server errors (500 to 599) and for no other code.
\<close>

definition raise_for_status :: "response \<Rightarrow> unit prog" where
  "raise_for_status resp =
     (if 400 \<le> status_code resp \<and> status_code resp < 600
      then throw (HTTPError (status_code resp)) else ret ())"

definition response_json :: "response \<Rightarrow> json prog" where
  "response_json resp = (case body resp of None \<Rightarrow> throw BodyNotJSON | Some j \<Rightarrow> ret j)"

subsection \<open>Python's operations on decoded JSON\<close>

text \<open>Truth value of a Python object in \<^verbatim>\<open>if x:\<close>.\<close>

fun truthy :: "json \<Rightarrow> bool" where
  "truthy JNull = False"
| "truthy (JBool b) = b"
| "truthy (JNum i) = (i \<noteq> 0)"
| "truthy (JStr s) = (s \<noteq> [])"
| "truthy (JArr xs) = (xs \<noteq> [])"
| "truthy (JObj kvs) = (kvs \<noteq> [])"

text \<open>\<^verbatim>\<open>d.get(k, default)\<close>: only a dict has the method.\<close>

fun dict_get :: "json \<Rightarrow> string \<Rightarrow> json \<Rightarrow> error + json" where
  "dict_get (JObj kvs) k d = Inr (case map_of kvs k of None \<Rightarrow> d | Some v \<Rightarrow> v)"
| "dict_get _ k d = Inl ShapeError"

definition dget :: "json \<Rightarrow> string \<Rightarrow> json \<Rightarrow> json prog" where
  "dget j k d = lift (dict_get j k d)"

text \<open>\<^verbatim>\<open>d[k]\<close> with a text key: a missing key and a value that is not a dict both raise.\<close>

fun dict_item :: "json \<Rightarrow> string \<Rightarrow> error + json" where
  "dict_item (JObj kvs) k = (case map_of kvs k of None \<Rightarrow> Inl ShapeError | Some v \<Rightarrow> Inr v)"
| "dict_item _ k = Inl ShapeError"

text \<open>\<^verbatim>\<open>for x in v\<close>: a list gives its items, a dict its keys, a text its characters.\<close>

fun py_iter :: "json \<Rightarrow> error + json list" where
  "py_iter (JArr xs) = Inr xs"
| "py_iter (JObj kvs) = Inr (map (\<lambda>kv. JStr (fst kv)) kvs)"
| "py_iter (JStr s) = Inr (map (\<lambda>c. JStr [c]) s)"
| "py_iter _ = Inl ShapeError"

fun py_len :: "json \<Rightarrow> error + int" where
  "py_len (JArr xs) = Inr (int (length xs))"
| "py_len (JObj kvs) = Inr (int (length kvs))"
| "py_len (JStr s) = Inr (int (length s))"
| "py_len _ = Inl ShapeError"

text \<open>\<^verbatim>\<open>v[:k]\<close>: texts and lists can be sliced.\<close>

fun py_prefix :: "nat \<Rightarrow> json \<Rightarrow> error + json" where
  "py_prefix k (JStr s) = Inr (JStr (take k s))"
| "py_prefix k (JArr xs) = Inr (JArr (take k xs))"
| "py_prefix k _ = Inl ShapeError"

text \<open>\<^verbatim>\<open>s.split(d)\<close> for a one-character separator, and \<^verbatim>\<open>s.rstrip(d)\<close>.\<close>

fun split_on :: "char \<Rightarrow> string \<Rightarrow> string list" where
  "split_on d [] = [[]]"
| "split_on d (c # cs) =
     (if c = d then [] # split_on d cs
      else (case split_on d cs of w # ws \<Rightarrow> (c # w) # ws | [] \<Rightarrow> [[c]]))"

definition rstrip :: "char \<Rightarrow> string \<Rightarrow> string" where
  "rstrip d s = rev (dropWhile (\<lambda>c. c = d) (rev s))"

subsection \<open>\<^verbatim>\<open>urllib.parse.quote\<close> and \<^verbatim>\<open>unquote\<close>\<close>

text \<open>
  \<^verbatim>\<open>quote(s, safe)\<close> keeps the bytes of the always-safe set and of \<open>safe\<close> and writes
  every other byte of the UTF-8 encoding as \<^verbatim>\<open>%XX\<close> with upper-case hexadecimal
  digits. \<^verbatim>\<open>unquote\<close> replaces each \<^verbatim>\<open>%XX\<close> (digits of either case) by its byte
  and leaves any other \<^verbatim>\<open>%\<close> in place.
\<close>

definition always_safe :: "char \<Rightarrow> bool" where
  "always_safe c =
     (c \<in> set ''ABCDEFGHIJKLMNOPQRSTUVWXYZabcdefghijklmnopqrstuvwxyz0123456789_.-~'')"

definition hex_digit :: "nat \<Rightarrow> char" where
  "hex_digit n = ''0123456789ABCDEF'' ! n"

definition quote_byte :: "string \<Rightarrow> char \<Rightarrow> string" where
  "quote_byte safe c =
     (if always_safe c \<or> c \<in> set safe then [c]
      else [CHR ''%'', hex_digit (of_char c div 16), hex_digit (of_char c mod 16)])"

definition quote :: "string \<Rightarrow> string \<Rightarrow> string" where
  "quote s safe = concat (map (quote_byte safe) s)"

definition hex_val :: "char \<Rightarrow> nat option" where
  "hex_val c = map_of (zip ''0123456789abcdefABCDEF'' ([0..<16] @ [10..<16])) c"

fun unquote :: "string \<Rightarrow> string" where
  "unquote (c # a # b # rest) =
     (if c = CHR ''%'' then
        (case (hex_val a, hex_val b) of
           (Some h, Some l) \<Rightarrow> char_of (16 * h + l) # unquote rest
         | _ \<Rightarrow> c # unquote (a # b # rest))
      else c # unquote (a # b # rest))"
| "unquote cs = cs"

section \<open>The discovery script\<close>

subsection \<open>\<^verbatim>\<open>MCPRegistryClient\<close>\<close>

record client =
  registry_url :: string
  api_base :: string

definition MCPRegistryClient :: "string \<Rightarrow> client" where
  "MCPRegistryClient u =
     \<lparr>registry_url = rstrip (CHR ''/'') u, api_base = rstrip (CHR ''/'') u @ ''/v0.1''\<rparr>"

text \<open>
  \<^verbatim>\<open>requests.get(u, params=p)\<close> of the client: no headers, no body, no timeout.
\<close>

definition plain_get :: "string \<Rightarrow> (string \<times> json) list \<Rightarrow> request" where
  "plain_get u p =
     \<lparr>meth = GET, url = u, params = p, headers = [], payload = None, time_limit = None\<rparr>"

text \<open>
  The \<^verbatim>\<open>params\<close> dict of \<^verbatim>\<open>list_servers\<close>. \<open>search\<close> is an optional text;
  \<open>cursor\<close> is whatever the previous page held under \<^verbatim>\<open>nextCursor\<close> (\<open>JNull\<close> is
  Python's \<^verbatim>\<open>None\<close>). Both are tested with \<^verbatim>\<open>if x:\<close>.
\<close>

definition list_params :: "string option \<Rightarrow> string \<Rightarrow> int \<Rightarrow> json \<Rightarrow> (string \<times> json) list" where
  "list_params search version limit cursor =
     [(''limit'', JNum limit), (''version'', JStr version)]
     @ (case search of
          None \<Rightarrow> []
        | Some q \<Rightarrow> if q \<noteq> [] then [(''search'', JStr q)] else [])
     @ (if truthy cursor then [(''cursor'', cursor)] else [])"

definition list_request :: "client \<Rightarrow> string option \<Rightarrow> string \<Rightarrow> int \<Rightarrow> json \<Rightarrow> request" where
  "list_request cl search version limit cursor =
     plain_get (api_base cl @ ''/servers'') (list_params search version limit cursor)"

definition list_servers ::
  "net \<Rightarrow> client \<Rightarrow> string option \<Rightarrow> string \<Rightarrow> int \<Rightarrow> json \<Rightarrow> json prog" where
  "list_servers n cl search version limit cursor =
     bnd (send n (list_request cl search version limit cursor)) (\<lambda>resp.
     bnd (raise_for_status resp) (\<lambda>_.
     response_json resp))"

definition version_url :: "client \<Rightarrow> string \<Rightarrow> string \<Rightarrow> string" where
  "version_url cl server_name version =
     api_base cl @ ''/servers/'' @ quote server_name '''' @ ''/versions/'' @ quote version ''''"

definition get_server_version :: "net \<Rightarrow> client \<Rightarrow> string \<Rightarrow> string \<Rightarrow> json prog" where
  "get_server_version n cl server_name version =
     bnd (send n (plain_get (version_url cl server_name version) [])) (\<lambda>resp.
     bnd (raise_for_status resp) (\<lambda>_.
     response_json resp))"

definition get_server :: "net \<Rightarrow> client \<Rightarrow> string \<Rightarrow> json prog" where
  "get_server n cl server_name = get_server_version n cl server_name ''latest''"

definition list_server_versions :: "net \<Rightarrow> client \<Rightarrow> string \<Rightarrow> json prog" where
  "list_server_versions n cl server_name =
     bnd (send n (plain_get (api_base cl @ ''/servers/'' @ quote server_name '''' @ ''/versions'') []))
       (\<lambda>resp.
     bnd (raise_for_status resp) (\<lambda>_.
     response_json resp))"

subsection \<open>Printing one server\<close>

definition seq :: "unit prog \<Rightarrow> 'a prog \<Rightarrow> 'a prog" where
  "seq m k = bnd m (\<lambda>_. k)"

definition print_package :: "json \<Rightarrow> unit prog" where
  "print_package pkg =
     bnd (dget pkg ''type'' (JStr ''N/A'')) (\<lambda>ty.
     seq (emit [Say ''Type:'' [ty]]) (
     bnd (dget pkg ''name'' (JStr ''N/A'')) (\<lambda>nm.
     seq (emit [Say ''Name:'' [nm]]) (
     bnd (dget pkg ''installCommand'' JNull) (\<lambda>install_cmd.
     seq (if truthy install_cmd then emit [Say ''Install:'' [install_cmd]] else ret ()) (
     bnd (dget pkg ''runCommand'' JNull) (\<lambda>run_cmd.
     if truthy run_cmd then emit [Say ''Run:'' [run_cmd]] else ret ())))))))"

definition print_meta :: "json \<Rightarrow> unit prog" where
  "print_meta meta =
     (if truthy meta then
        bnd (dget meta ''status'' (JStr ''N/A'')) (\<lambda>status.
        seq (emit [Say ''Status:'' [status]]) (
        bnd (dget meta ''publishedAt'' (JStr ''N/A'')) (\<lambda>published.
        seq (emit [Say ''Published:'' [published]]) (
        bnd (dget meta ''isLatest'' JNull) (\<lambda>latest.
        if truthy latest then emit [Say ''Latest: This is the latest version'' []]
        else ret ())))))
      else ret ())"

definition print_server_info :: "json \<Rightarrow> bool \<Rightarrow> unit prog" where
  "print_server_info server_data detailed =
     bnd (dget server_data ''server'' (JObj [])) (\<lambda>server.
     bnd (dget server_data ''_meta'' (JObj [])) (\<lambda>meta0.
     bnd (dget meta0 ''io.modelcontextprotocol.registry/official'' (JObj [])) (\<lambda>meta.
     bnd (dget server ''title'' (JStr ''N/A'')) (\<lambda>title.
     seq (emit [Say ''Title'' [title]]) (
     bnd (dget server ''name'' (JStr ''N/A'')) (\<lambda>nm.
     seq (emit [Say ''Name:'' [nm]]) (
     bnd (dget server ''version'' (JStr ''N/A'')) (\<lambda>ver.
     seq (emit [Say ''Version:'' [ver]]) (
     bnd (dget server ''description'' (JStr ''N/A'')) (\<lambda>descr.
     seq (emit [Say ''Description:'' [descr]]) (
     bnd (dget server ''repository'' JNull) (\<lambda>repo.
     seq (if truthy repo
          then bnd (dget repo ''url'' (JStr ''N/A'')) (\<lambda>u. emit [Say ''Repository:'' [u]])
          else ret ()) (
     seq (print_meta meta) (
     if detailed then
       bnd (dget server ''packages'' JNull) (\<lambda>packages.
       if truthy packages then
         seq (emit [Say ''Installation Packages:'' []]) (
         bnd (lift (py_iter packages)) (\<lambda>pkgs. for_each pkgs print_package))
       else ret ())
     else ret ()))))))))))))))"

subsection \<open>The five examples\<close>

definition example_1_search_servers :: "net \<Rightarrow> client \<Rightarrow> unit prog" where
  "example_1_search_servers n cl =
     seq (emit [Say ''EXAMPLE 1: Search for Math Servers'' []]) (
     bnd (list_servers n cl (Some ''math'') ''latest'' 10 JNull) (\<lambda>result.
     bnd (dget result ''servers'' (JArr [])) (\<lambda>servers.
     bnd (lift (py_len servers)) (\<lambda>k.
     seq (emit [Say ''Found server(s) matching math:'' [JNum k]]) (
     bnd (lift (py_iter servers)) (\<lambda>items.
     for_each items (\<lambda>server_data.
       bnd (dget server_data ''server'' (JObj [])) (\<lambda>server.
       bnd (dget server ''name'' JNull) (\<lambda>nm.
       bnd (dget server ''version'' JNull) (\<lambda>ver.
       bnd (dget server ''title'' JNull) (\<lambda>title.
       emit [Say ''server:'' [nm, ver, title]])))))))))))"

definition example_2_get_specific_server :: "net \<Rightarrow> client \<Rightarrow> string \<Rightarrow> unit prog" where
  "example_2_get_specific_server n cl server_name =
     seq (emit [Say ''EXAMPLE 2: Get Server Details'' []]) (
     catch_http
       (bnd (get_server n cl server_name) (\<lambda>server_data.
        print_server_info server_data True))
       (\<lambda>c. if c = 404
            then emit [Say ''Server not found in registry'' [JStr server_name]]
            else throw (HTTPError c)))"

definition print_version :: "json \<Rightarrow> unit prog" where
  "print_version version_data =
     bnd (dget version_data ''version'' (JObj [])) (\<lambda>version_info.
     bnd (dget version_data ''_meta'' (JObj [])) (\<lambda>meta0.
     bnd (dget meta0 ''io.modelcontextprotocol.registry/official'' (JObj [])) (\<lambda>meta.
     bnd (dget version_info ''version'' (JStr ''unknown'')) (\<lambda>version_str.
     bnd (dget meta ''publishedAt'' (JStr ''N/A'')) (\<lambda>published.
     bnd (dget meta ''isLatest'' JNull) (\<lambda>is_latest.
     emit [Say ''version:''
       [version_str, JStr (if truthy is_latest then '' (LATEST)'' else []), published]]))))))"

definition example_3_list_versions :: "net \<Rightarrow> client \<Rightarrow> string \<Rightarrow> unit prog" where
  "example_3_list_versions n cl server_name =
     seq (emit [Say ''EXAMPLE 3: List All Versions'' []]) (
     catch_http
       (bnd (list_server_versions n cl server_name) (\<lambda>result.
        bnd (dget result ''versions'' (JArr [])) (\<lambda>versions.
        seq (emit [Say ''Available versions of'' [JStr server_name]]) (
        bnd (lift (py_iter versions)) (\<lambda>items.
        for_each items print_version)))))
       (\<lambda>c. if c = 404
            then emit [Say ''Server not found'' [JStr server_name]]
            else throw (HTTPError c)))"

text \<open>
  One round of the \<^verbatim>\<open>while True\<close> loop of \<^verbatim>\<open>example_4_list_all_servers\<close>, up
  to the test of the new cursor: the listing call, \<^verbatim>\<open>all_servers.extend(servers)\<close>,
  the page line, and the next cursor.
\<close>

definition page_step :: "net \<Rightarrow> client \<Rightarrow> json list \<Rightarrow> json \<Rightarrow> int \<Rightarrow> (json list \<times> json) prog" where
  "page_step n cl all_servers cursor page =
     bnd (list_servers n cl None ''latest'' 10 cursor) (\<lambda>result.
     bnd (dget result ''servers'' (JArr [])) (\<lambda>servers.
     bnd (lift (py_iter servers)) (\<lambda>items.
     bnd (lift (py_len servers)) (\<lambda>k.
     seq (emit [Say ''Page: Found servers'' [JNum page, JNum k]]) (
     bnd (dget result ''nextCursor'' JNull) (\<lambda>cursor'.
     ret (all_servers @ items, cursor')))))))"

text \<open>
  The loop itself. Nothing in the script bounds it: it ends when a page carries no
  (truthy) next cursor or a round raises, and runs forever on a registry that always
  hands out a cursor. The result is \<open>None\<close> when it does not return.
\<close>

partial_function (option) paginate ::
  "net \<Rightarrow> client \<Rightarrow> json list \<Rightarrow> json \<Rightarrow> int \<Rightarrow> log \<Rightarrow> ((error + json list) \<times> log) option" where
  "paginate n cl all_servers cursor page s =
     (case page_step n cl all_servers cursor page s of
        (Inl e, s') \<Rightarrow> Some (Inl e, s')
      | (Inr (all_servers', cursor'), s') \<Rightarrow>
          if \<not> truthy cursor' then Some (Inr all_servers', s')
          else paginate n cl all_servers' cursor' (page + 1) s')"

definition print_all_servers :: "json list \<Rightarrow> unit prog" where
  "print_all_servers all_servers =
     seq (emit [Say ''Total servers in registry:'' [JNum (int (length all_servers))],
                Say ''Servers:'' []]) (
     for_each all_servers (\<lambda>server_data.
       bnd (dget server_data ''server'' (JObj [])) (\<lambda>server.
       bnd (dget server ''name'' JNull) (\<lambda>nm.
       bnd (dget server ''version'' JNull) (\<lambda>ver.
       emit [Say ''server:'' [nm, ver]])))))"

definition example_4_list_all_servers :: "net \<Rightarrow> client \<Rightarrow> log \<Rightarrow> ((error + unit) \<times> log) option" where
  "example_4_list_all_servers n cl s =
     (case emit [Say ''EXAMPLE 4: List All Servers (with pagination)'' []] s of
        (_, s0) \<Rightarrow>
          (case paginate n cl [] JNull 1 s0 of
             None \<Rightarrow> None
           | Some (Inl e, s1) \<Rightarrow> Some (Inl e, s1)
           | Some (Inr all_servers, s1) \<Rightarrow> Some (print_all_servers all_servers s1)))"

definition install_line :: "json \<Rightarrow> unit prog" where
  "install_line pkg =
     bnd (dget pkg ''type'' JNull) (\<lambda>pkg_type.
     bnd (dget pkg ''name'' JNull) (\<lambda>pkg_name.
     seq (if pkg_type = JStr ''npm'' then emit [Say ''npm install -g'' [pkg_name]]
          else if pkg_type = JStr ''pypi'' then emit [Say ''pip install'' [pkg_name]]
          else if pkg_type = JStr ''docker'' then emit [Say ''docker pull'' [pkg_name]]
          else ret ()) (
     bnd (dget pkg ''runCommand'' JNull) (\<lambda>run_cmd.
     if truthy run_cmd then emit [Say ''run:'' [run_cmd]] else ret ()))))"

text \<open>\<^verbatim>\<open>packages[0]\<close>, and \<^verbatim>\<open>name.split('/')[-1]\<close> (only a text has \<^verbatim>\<open>split\<close>).\<close>

fun py_first :: "json \<Rightarrow> error + json" where
  "py_first (JArr (x # xs)) = Inr x"
| "py_first (JStr (c # cs)) = Inr (JStr [c])"
| "py_first _ = Inl ShapeError"

fun short_name :: "json \<Rightarrow> error + json" where
  "short_name (JStr s) = Inr (JStr (last (split_on (CHR ''/'') s)))"
| "short_name _ = Inl ShapeError"

definition client_command :: "json \<Rightarrow> json prog" where
  "client_command packages =
     (if truthy packages then
        bnd (lift (py_len packages)) (\<lambda>k.
        if k > 0 then
          bnd (lift (py_first packages)) (\<lambda>first_pkg.
          dget first_pkg ''runCommand'' (JStr ''server-command''))
        else ret (JStr ''path-to-server''))
      else ret (JStr ''path-to-server''))"

definition example_5_installation_info :: "net \<Rightarrow> client \<Rightarrow> string \<Rightarrow> unit prog" where
  "example_5_installation_info n cl server_name =
     seq (emit [Say ''EXAMPLE 5: How to Use This Server'' []]) (
     catch_http
       (bnd (get_server n cl server_name) (\<lambda>server_data.
        bnd (dget server_data ''server'' (JObj [])) (\<lambda>server.
        bnd (dget server ''title'' (JStr server_name)) (\<lambda>title.
        seq (emit [Say ''Installation Guide for'' [title],
                   Say ''Option 1: Direct Installation'' []]) (
        bnd (dget server ''packages'' (JArr [])) (\<lambda>packages.
        seq (if truthy packages then
               bnd (lift (py_iter packages)) (\<lambda>pkgs. for_each pkgs install_line)
             else
               seq (emit [Say ''No pre-packaged installation available.'' []]) (
               bnd (dget server ''repository'' JNull) (\<lambda>repo.
               if truthy repo
               then bnd (dget repo ''url'' JNull) (\<lambda>u.
                    emit [Say ''Clone and build from source:'' [u]])
               else ret ()))) (
        seq (emit [Say ''Option 2: Use with MCP Client (e.g., Claude Desktop)'' [],
                   Say ''Add to your MCP client config:'' []]) (
        bnd (client_command packages) (\<lambda>command.
        bnd (dget server ''name'' (JStr ''server'')) (\<lambda>nm.
        bnd (lift (short_name nm)) (\<lambda>short.
        emit [Say ''mcpServers config'' [short, command]])))))))))))
       (\<lambda>c. if c = 404
            then emit [Say ''Server not found'' [JStr server_name]]
            else throw (HTTPError c)))"

subsection \<open>The driver\<close>

text \<open>
  The body of the \<^verbatim>\<open>try\<close> of \<^verbatim>\<open>main\<close>: the five examples one after the other,
  then the closing lines.
\<close>

definition run_examples :: "net \<Rightarrow> client \<Rightarrow> string \<Rightarrow> log \<Rightarrow> ((error + unit) \<times> log) option" where
  "run_examples n cl server_name s =
     (case seq (example_1_search_servers n cl) (
           seq (example_2_get_specific_server n cl server_name) (
           example_3_list_versions n cl server_name)) s of
        (Inl e, s') \<Rightarrow> Some (Inl e, s')
      | (Inr _, s') \<Rightarrow>
          (case example_4_list_all_servers n cl s' of
             None \<Rightarrow> None
           | Some (Inl e, s'') \<Rightarrow> Some (Inl e, s'')
           | Some (Inr _, s'') \<Rightarrow>
               Some (seq (example_5_installation_info n cl server_name) (
                     emit [Say ''All examples completed successfully!'' [],
                           Say ''Next Steps:'' []]) s'')))"

text \<open>
  \<^verbatim>\<open>main\<close> of the discovery script: the health request inside its own
  \<^verbatim>\<open>try/except Exception\<close> (which returns), then the examples inside one
  \<^verbatim>\<open>try/except Exception\<close> that prints the error and the traceback. It returns
  \<^verbatim>\<open>None\<close> on every path, so the result is the final log, or \<open>None\<close> when the
  pagination loop does not return.
\<close>

definition consume_url :: string where
  "consume_url = ''http://localhost:8080''"

definition consume_server_name :: string where
  "consume_server_name = ''io.modelcontextprotocol.anonymous/mcp-math-server''"

definition consume_main :: "net \<Rightarrow> log \<Rightarrow> log option" where
  "consume_main n s =
     (case emit [Say ''MCP Registry Consumer - Example Usage'' [],
                 Say ''Registry URL:'' [JStr consume_url]] s of
        (_, s0) \<Rightarrow>
          (case send n (plain_get (consume_url @ ''/health'') []) s0 of
             (Inl e, s1) \<Rightarrow>
               Some (snd (emit [Say ''Cannot connect to registry'' [],
                                Say ''Make sure the registry is running:'' []] s1))
           | (Inr resp, s1) \<Rightarrow>
               (case run_examples n (MCPRegistryClient consume_url) consume_server_name
                       (snd (emit [Say ''Registry is accessible'' []] s1)) of
                  None \<Rightarrow> None
                | Some (Inl e, s2) \<Rightarrow> Some (snd (emit [ErrorReport e] s2))
                | Some (Inr _, s2) \<Rightarrow> Some s2)))"

section \<open>The publish script\<close>

text \<open>
  What the publish script reads from outside: the environment variables, the
  descriptor file (\<^verbatim>\<open>open\<close> and \<^verbatim>\<open>json.load\<close>, which raise on a missing or
  malformed file), the network, the verdict of \<^verbatim>\<open>jsonschema.validate(instance,
  schema)\<close>, the path \<^verbatim>\<open>server_root / "server.json"\<close> computed from the script's own
  location, and Python's \<^verbatim>\<open>repr\<close>, which an f-string applies to a value that is
  not a text.
\<close>

record world =
  environ :: "string \<Rightarrow> string option"
  load_json :: "string \<Rightarrow> error + json"
  network :: net
  conforms :: "json \<Rightarrow> json \<Rightarrow> bool"
  default_json_path :: string
  py_repr :: "json \<Rightarrow> string"

text \<open>\<^verbatim>\<open>f"{v}"\<close>: a text is interpolated as it is, any other value by its \<^verbatim>\<open>repr\<close>.\<close>

definition py_str :: "world \<Rightarrow> json \<Rightarrow> string" where
  "py_str w v = (case v of JStr s \<Rightarrow> s | _ \<Rightarrow> py_repr w v)"

text \<open>\<^verbatim>\<open>s.lower()\<close>, on the ASCII letters (no other character lowers to a letter of \<^verbatim>\<open>true\<close>).\<close>

definition lower :: "string \<Rightarrow> string" where
  "lower s =
     map (\<lambda>c. if 65 \<le> (of_char c :: nat) \<and> (of_char c :: nat) \<le> 90
              then char_of ((of_char c :: nat) + 32) else c) s"

definition env_get :: "world \<Rightarrow> string \<Rightarrow> string \<Rightarrow> string" where
  "env_get w k d = (case environ w k of None \<Rightarrow> d | Some v \<Rightarrow> v)"

definition json_headers :: "(string \<times> string) list" where
  "json_headers =
     [(''Accept'', ''application/json, application/problem+json''),
      (''Content-Type'', ''application/json'')]"

definition auth_headers :: "world \<Rightarrow> json \<Rightarrow> (string \<times> string) list" where
  "auth_headers w auth_token =
     json_headers
     @ (if truthy auth_token then [(''Authorization'', ''Bearer '' @ py_str w auth_token)] else [])"

definition auth_request :: "string \<Rightarrow> request" where
  "auth_request registry =
     \<lparr>meth = POST, url = registry @ ''/v0.1/auth/none'', params = [],
      headers = json_headers, payload = None, time_limit = Some 10\<rparr>"

definition get_auth_token_none :: "world \<Rightarrow> string \<Rightarrow> json prog" where
  "get_auth_token_none w registry =
     bnd (send (network w) (auth_request registry)) (\<lambda>resp.
     bnd (raise_for_status resp) (\<lambda>_.
     bnd (response_json resp) (\<lambda>data.
     bnd (lift (dict_item data ''registry_token'')) (\<lambda>token.
     bnd (dget data ''expires_at'' (JStr ''unknown'')) (\<lambda>expires_at.
     seq (emit [Say ''[OK] Got auth token from /auth/none (expires: )'' [expires_at]]) (
     ret token))))))"

definition schema_url :: string where
  "schema_url = ''https://static.modelcontextprotocol.io/schemas/2025-09-29/server.schema.json''"

definition schema_request :: request where
  "schema_request =
     \<lparr>meth = GET, url = schema_url, params = [], headers = [], payload = None,
      time_limit = Some 10\<rparr>"

definition validate_server_json :: "world \<Rightarrow> string \<Rightarrow> json prog" where
  "validate_server_json w server_json_path =
     seq (emit [Say ''Validating server.json...'' []]) (
     bnd (lift (load_json w server_json_path)) (\<lambda>server_data.
     bnd (send (network w) schema_request) (\<lambda>resp.
     bnd (raise_for_status resp) (\<lambda>_.
     bnd (response_json resp) (\<lambda>schema.
     seq (if conforms w server_data schema then ret () else throw InvalidDescriptor) (
     seq (emit [Say ''[OK] Validation successful!'' []]) (
     ret server_data)))))))"

definition publish_request :: "world \<Rightarrow> string \<Rightarrow> json \<Rightarrow> json \<Rightarrow> request" where
  "publish_request w registry server_data auth_token =
     \<lparr>meth = POST, url = registry @ ''/v0.1/publish'', params = [],
      headers = auth_headers w auth_token, payload = Some server_data, time_limit = Some 30\<rparr>"

definition publish_server :: "world \<Rightarrow> string \<Rightarrow> json \<Rightarrow> json \<Rightarrow> json prog" where
  "publish_server w registry server_data auth_token =
     seq (emit [Say ''Publishing to:'' [JStr (registry @ ''/v0.1/publish'')]]) (
     bnd (send (network w) (publish_request w registry server_data auth_token)) (\<lambda>resp.
     seq (emit [Say ''Response Status:'' [JNum (status_code resp)]]) (
     seq (if status_code resp \<notin> set [200, 201] then
            seq (emit [Say ''ERROR: Publishing failed with status'' [JNum (status_code resp)]]) (
            bnd (response_json resp) (\<lambda>error_data.
            seq (emit [Say ''Error details:'' [error_data]]) (
            raise_for_status resp)))
          else ret ()) (
     seq (emit [Say ''[OK] Successfully published!'' []]) (
     response_json resp)))))"

definition update_endpoint :: "world \<Rightarrow> string \<Rightarrow> json \<Rightarrow> json \<Rightarrow> string" where
  "update_endpoint w registry server_name version =
     registry @ ''/v0.1/servers/'' @ py_str w server_name @ ''/versions/'' @ py_str w version"

definition update_request :: "world \<Rightarrow> string \<Rightarrow> json \<Rightarrow> json \<Rightarrow> json \<Rightarrow> json \<Rightarrow> request" where
  "update_request w registry server_name version server_data auth_token =
     \<lparr>meth = PUT, url = update_endpoint w registry server_name version, params = [],
      headers = auth_headers w auth_token, payload = Some server_data, time_limit = Some 30\<rparr>"

definition update_server_version ::
  "world \<Rightarrow> string \<Rightarrow> json \<Rightarrow> json \<Rightarrow> json \<Rightarrow> json \<Rightarrow> json prog" where
  "update_server_version w registry server_name version server_data auth_token =
     seq (emit [Say ''Updating:'' [JStr (update_endpoint w registry server_name version)]]) (
     bnd (send (network w)
            (update_request w registry server_name version server_data auth_token)) (\<lambda>resp.
     seq (emit [Say ''Response Status:'' [JNum (status_code resp)]]) (
     seq (if status_code resp \<noteq> 200 then
            seq (emit [Say ''ERROR: Update failed with status'' [JNum (status_code resp)]]) (
            bnd (response_json resp) (\<lambda>error_data.
            seq (emit [Say ''Error details:'' [error_data]]) (
            raise_for_status resp)))
          else ret ()) (
     seq (emit [Say ''[OK] Successfully updated!'' []]) (
     response_json resp)))))"

definition get_server_info :: "world \<Rightarrow> string \<Rightarrow> json \<Rightarrow> json prog" where
  "get_server_info w registry server_name =
     bnd (send (network w)
            \<lparr>meth = GET, url = registry @ ''/v0.1/servers'',
             params = [(''search'', server_name)],
             headers = [(''Accept'', ''application/json'')], payload = None,
             time_limit = Some 10\<rparr>) (\<lambda>resp.
     bnd (raise_for_status resp) (\<lambda>_.
     response_json resp))"

subsection \<open>\<^verbatim>\<open>main\<close>, in its steps\<close>

definition server_json_path :: "world \<Rightarrow> string" where
  "server_json_path w =
     (case environ w ''MCP_SERVER_JSON'' of
        None \<Rightarrow> default_json_path w
      | Some p \<Rightarrow> if p \<noteq> [] then p else default_json_path w)"

definition registry_of :: "world \<Rightarrow> string" where
  "registry_of w = env_get w ''MCP_REGISTRY_URL'' ''http://localhost:8080''"

definition env_token :: "world \<Rightarrow> json" where
  "env_token w = (case environ w ''MCP_AUTH_TOKEN'' of None \<Rightarrow> JNull | Some t \<Rightarrow> JStr t)"

definition update_mode :: "world \<Rightarrow> bool" where
  "update_mode w = (lower (env_get w ''MCP_UPDATE_MODE'' ''false'') = ''true'')"

definition auto_auth :: "world \<Rightarrow> bool" where
  "auto_auth w = (lower (env_get w ''MCP_AUTO_AUTH'' ''true'') = ''true'')"

text \<open>\<^verbatim>\<open>k in d\<close>, reached only for a dict here.\<close>

fun dict_has :: "json \<Rightarrow> string \<Rightarrow> bool" where
  "dict_has (JObj kvs) k = (map_of kvs k \<noteq> None)"
| "dict_has _ k = False"

text \<open>
  The block \<^verbatim>\<open>Server Information\<close> (lines 170 to 188): it reads the name and the
  version that the later steps use, and prints the descriptor.
\<close>

definition show_packages :: "json \<Rightarrow> unit prog" where
  "show_packages server_data =
     (if dict_has server_data ''packages'' then
        bnd (lift (dict_item server_data ''packages'')) (\<lambda>packages.
        bnd (lift (py_len packages)) (\<lambda>k.
        seq (emit [Say ''Packages:'' [JNum k]]) (
        bnd (lift (py_iter packages)) (\<lambda>pkgs.
        for_each pkgs (\<lambda>pkg.
          bnd (dget pkg ''registryType'' JNull) (\<lambda>ty.
          bnd (dget pkg ''identifier'' JNull) (\<lambda>ident.
          bnd (dget pkg ''version'' JNull) (\<lambda>ver.
          emit [Say ''package:'' [ty, ident, ver]]))))))))
      else ret ())"

definition show_remotes :: "json \<Rightarrow> unit prog" where
  "show_remotes server_data =
     (if dict_has server_data ''remotes'' then
        bnd (lift (dict_item server_data ''remotes'')) (\<lambda>remotes.
        bnd (lift (py_len remotes)) (\<lambda>k.
        seq (emit [Say ''Remotes:'' [JNum k]]) (
        bnd (lift (py_iter remotes)) (\<lambda>rs.
        for_each rs (\<lambda>remote.
          bnd (dget remote ''type'' JNull) (\<lambda>ty.
          bnd (dget remote ''url'' JNull) (\<lambda>u.
          emit [Say ''remote:'' [ty, u]])))))))
      else ret ())"

definition show_server_information :: "json \<Rightarrow> (json \<times> json) prog" where
  "show_server_information server_data =
     seq (emit [Say ''Server Information:'' []]) (
     bnd (dget server_data ''name'' (JStr ''unknown'')) (\<lambda>server_name.
     bnd (dget server_data ''version'' (JStr ''unknown'')) (\<lambda>server_version.
     seq (emit [Say ''Name:'' [server_name]]) (
     bnd (dget server_data ''title'' (JStr ''N/A'')) (\<lambda>title.
     seq (emit [Say ''Title:'' [title], Say ''Version:'' [server_version]]) (
     bnd (dget server_data ''description'' (JStr ''N/A'')) (\<lambda>desc.
     bnd (lift (py_prefix 60 desc)) (\<lambda>short.
     bnd (lift (py_len desc)) (\<lambda>k.
     seq (emit [Say ''Description:'' [short, JStr (if k > 60 then ''...'' else [])]]) (
     seq (show_packages server_data) (
     seq (show_remotes server_data) (
     ret (server_name, server_version)))))))))))))"

definition connectivity_request :: "string \<Rightarrow> request" where
  "connectivity_request registry =
     \<lparr>meth = GET, url = registry @ ''/v0.1/servers'', params = [], headers = [],
      payload = None, time_limit = Some 5\<rparr>"

definition check_connectivity :: "world \<Rightarrow> unit prog" where
  "check_connectivity w =
     seq (emit [Say ''Checking registry connectivity...'' []]) (
     bnd (send (network w) (connectivity_request (registry_of w))) (\<lambda>resp.
     seq (raise_for_status resp) (
     emit [Say ''[OK] Registry is accessible'' []])))"

definition obtain_token :: "world \<Rightarrow> json prog" where
  "obtain_token w =
     (if \<not> truthy (env_token w) \<and> auto_auth w then
        seq (emit [Say ''Getting authentication token from /auth/none...'' []]) (
        bnd (get_auth_token_none w (registry_of w)) (\<lambda>auth_token.
        bnd (lift (py_prefix 20 auth_token)) (\<lambda>shown.
        seq (emit [Say ''[OK] Using auto-generated token:'' [shown]]) (
        ret auth_token))))
      else ret (env_token w))"

text \<open>
  Lines 135 to 204 of \<^verbatim>\<open>main\<close>: configuration, validation, the descriptor's
  summary, the connectivity check and the token. The result is what the submission
  uses: the descriptor, its name and version, and the token.
\<close>

definition publish_prologue :: "world \<Rightarrow> (json \<times> json \<times> json \<times> json) prog" where
  "publish_prologue w =
     seq (emit [Say ''MCP Server Publisher - REST API Mode'' [],
                Say ''Configuration:'' [],
                Say ''Server JSON:'' [JStr (server_json_path w)],
                Say ''Registry URL:'' [JStr (registry_of w)],
                Say ''Auth Token:''
                  [JStr (if truthy (env_token w) then ''Set (from env)'' else ''Not set'')],
                Say ''Auto Auth:'' [JBool (auto_auth w)],
                Say ''Update Mode:'' [JBool (update_mode w)]]) (
     bnd (validate_server_json w (server_json_path w)) (\<lambda>server_data.
     bnd (show_server_information server_data) (\<lambda>nv.
     seq (check_connectivity w) (
     bnd (obtain_token w) (\<lambda>auth_token.
     ret (server_data, fst nv, snd nv, auth_token))))))"

text \<open>Lines 206 to 220: publish or update.\<close>

definition submit :: "world \<Rightarrow> json \<Rightarrow> json \<Rightarrow> json \<Rightarrow> json \<Rightarrow> json prog" where
  "submit w server_data server_name server_version auth_token =
     (if update_mode w then
        seq (emit [Say ''UPDATE MODE: Updating version'' [server_version]]) (
        update_server_version w (registry_of w) server_name server_version server_data auth_token)
      else
        seq (emit [Say ''PUBLISH MODE: Publishing new server or version'' []]) (
        publish_server w (registry_of w) server_data auth_token))"

text \<open>Lines 222 to 253: the result, the verification query (after a pause), success.\<close>

definition publish_epilogue :: "world \<Rightarrow> json \<Rightarrow> json \<Rightarrow> int prog" where
  "publish_epilogue w server_name result =
     seq (emit [Say ''Published Server Details:'' [result],
                Say ''Verifying publication...'' []]) (
     bnd (get_server_info w (registry_of w) server_name) (\<lambda>server_info.
     seq (emit [Say ''[OK] Server is now visible in registry!'' [],
                Say ''Available versions:'' []]) (
     bnd (dget server_info ''servers'' (JArr [])) (\<lambda>servers.
     bnd (lift (py_iter servers)) (\<lambda>items.
     seq (for_each items (\<lambda>server.
            bnd (dget server ''server'' (JObj [])) (\<lambda>srv.
            bnd (dget server ''_meta'' (JObj [])) (\<lambda>meta0.
            bnd (dget meta0 ''io.modelcontextprotocol.registry/official'' (JObj [])) (\<lambda>meta.
            bnd (dget srv ''version'' JNull) (\<lambda>ver.
            bnd (dget meta ''publishedAt'' (JStr ''unknown'')) (\<lambda>published.
            emit [Say ''version:'' [ver, published]]))))))) (
     seq (emit [Say ''SUCCESS'' [], Say ''Next steps:'' [],
                Say ''1. View server:'' [JStr (registry_of w), server_name]]) (
     ret 0)))))))"

definition publish_main :: "world \<Rightarrow> int prog" where
  "publish_main w =
     bnd (publish_prologue w) (\<lambda>p.
       (case p of (server_data, server_name, server_version, auth_token) \<Rightarrow>
     bnd (submit w server_data server_name server_version auth_token) (\<lambda>result.
     publish_epilogue w server_name result)))"

text \<open>
  \<^verbatim>\<open>sys.exit(main())\<close>: the exit code is what \<^verbatim>\<open>main\<close> returns, and 1 when an
  exception leaves it (the interpreter prints the traceback). The result is the
  exit code and the final log.
\<close>

definition publish_script :: "world \<Rightarrow> int \<times> log" where
  "publish_script w =
     (case publish_main w start of
        (Inl e, s) \<Rightarrow> (1, s)
      | (Inr code, s) \<Rightarrow> (code, s))"

text \<open>
  The requests of a log that write to the registry: every request that is not a GET,
  other than the request for a token. \<open>submissions\<close> lists them in order, each with
  its verb and URL.
\<close>

definition is_submission :: "world \<Rightarrow> request \<Rightarrow> bool" where
  "is_submission w r = (meth r \<noteq> GET \<and> url r \<noteq> registry_of w @ ''/v0.1/auth/none'')"

definition submissions :: "world \<Rightarrow> log \<Rightarrow> (verb \<times> string) list" where
  "submissions w s = map (\<lambda>r. (meth r, url r)) (filter (is_submission w) (sent s))"

text \<open>A step of the script that adds no submission to the log, from any log.\<close>

definition quiet :: "world \<Rightarrow> 'a prog \<Rightarrow> bool" where
  "quiet w m = (\<forall>s. submissions w (snd (m s)) = submissions w s)"

section \<open>The specification's words, and concrete registries\<close>

text \<open>
  The specification's reading of \<^verbatim>\<open>list_servers\<close>: the limit that a request carries
  lies in the registry's accepted range, 1 to 100.
\<close>

definition limit_in_range :: "request \<Rightarrow> bool" where
  "limit_in_range r =
     (case map_of (params r) ''limit'' of Some (JNum k) \<Rightarrow> 1 \<le> k \<and> k \<le> 100 | _ \<Rightarrow> False)"

text \<open>A registry that cannot be reached, and a world around it with nothing set.\<close>

definition unreachable :: net where
  "unreachable h r = NoReply"

definition bare_world :: world where
  "bare_world =
     \<lparr>environ = (\<lambda>k. None), load_json = (\<lambda>p. Inl FileError), network = unreachable,
      conforms = (\<lambda>d sch. False), default_json_path = ''mcp_server_test/server.json'',
      py_repr = (\<lambda>v. ''?'')\<rparr>"

text \<open>A registry that answers every request with the same status code and no JSON body.\<close>

definition answering :: "int \<Rightarrow> net" where
  "answering c h r = Reply \<lparr>status_code = c, body = None\<rparr>"

text \<open>
  A registry that answers the lookup of the latest version of the example server with
  500 and every other request with 200 and an empty listing.
\<close>

definition failing_registry :: net where
  "failing_registry h r =
     (if url r = ''http://localhost:8080/v0.1/servers/io.modelcontextprotocol.anonymous%2Fmcp-math-server/versions/latest''
      then Reply \<lparr>status_code = 500, body = None\<rparr>
      else Reply \<lparr>status_code = 200, body = Some (JObj [(''servers'', JArr [])])\<rparr>)"

text \<open>
  The specification's registry with finitely many pages. \<open>pages_served n cl hist c ps\<close>
  says that the registry \<open>n\<close>, asked by the listing loop with the cursor \<open>c\<close> after the
  requests \<open>hist\<close>, hands out the pages \<open>ps\<close> one after the other: each reply is not an
  HTTP error and its body is an object whose \<^verbatim>\<open>servers\<close> are the items of the page
  and whose \<^verbatim>\<open>nextCursor\<close> is the cursor of the page; every page but the last carries
  a (truthy) next cursor, with which the next page is asked for, and the last carries
  none.
\<close>

fun pages_served :: "net \<Rightarrow> client \<Rightarrow> request list \<Rightarrow> json \<Rightarrow> (json list \<times> json) list \<Rightarrow> bool" where
  "pages_served n cl hist cursor [] = False"
| "pages_served n cl hist cursor (p # rest) =
     (case n hist (list_request cl None ''latest'' 10 cursor) of
        NoReply \<Rightarrow> False
      | Reply resp \<Rightarrow>
          \<not> (400 \<le> status_code resp \<and> status_code resp < 600)
          \<and> (case body resp of
               None \<Rightarrow> False
             | Some b \<Rightarrow>
                 dict_get b ''servers'' (JArr []) = Inr (JArr (fst p))
                 \<and> dict_get b ''nextCursor'' JNull = Inr (snd p)
                 \<and> (if rest = [] then \<not> truthy (snd p)
                    else truthy (snd p)
                         \<and> pages_served n cl
                             (hist @ [list_request cl None ''latest'' 10 cursor]) (snd p) rest)))"

text \<open>A registry with two pages: the first request (no cursor) gets two items and the
  cursor \<^verbatim>\<open>p2\<close>, a request with a cursor gets the third item and no cursor.\<close>

definition catalog_item :: "string \<Rightarrow> json" where
  "catalog_item k = JObj [(''server'', JObj [(''name'', JStr k), (''version'', JStr ''1.0.0'')])]"

definition two_pages :: net where
  "two_pages h r =
     (if map_of (params r) ''cursor'' = None
      then Reply \<lparr>status_code = 200,
                  body = Some (JObj [(''servers'', JArr [catalog_item ''a'', catalog_item ''b'']),
                                     (''nextCursor'', JStr ''p2'')])\<rparr>
      else Reply \<lparr>status_code = 200,
                  body = Some (JObj [(''servers'', JArr [catalog_item ''c''])])\<rparr>)"

text \<open>The page lines that the loop prints for a sequence of pages, from a page number on.\<close>

fun page_lines :: "int \<Rightarrow> (json list \<times> json) list \<Rightarrow> event list" where
  "page_lines page [] = []"
| "page_lines page (p # ps) =
     Say ''Page: Found servers'' [JNum page, JNum (int (length (fst p)))] # page_lines (page + 1) ps"

text \<open>
  Concrete worlds for the publish script. The descriptor is the one of the
  specification's scenario. In \<open>demo_world mode code\<close> the update-mode variable is
  \<open>mode\<close>, automatic authentication is off, every descriptor passes validation, and the
  registry answers every GET with 200 and every other request with the status \<open>code\<close>,
  always with the JSON body \<^verbatim>\<open>{}\<close>. In \<open>rejecting_world\<close> the descriptor has no name
  and the validator asks for one.
\<close>

definition demo_descriptor :: json where
  "demo_descriptor =
     JObj [(''name'', JStr ''ns/srv''), (''version'', JStr ''1.0.0''),
           (''packages'', JArr [JObj [(''registryType'', JStr ''npm''),
                                      (''identifier'', JStr ''srv-pkg''),
                                      (''version'', JStr ''1.0.0'')]])]"

definition demo_world :: "string \<Rightarrow> int \<Rightarrow> world" where
  "demo_world mode code =
     \<lparr>environ = (\<lambda>k. if k = ''MCP_UPDATE_MODE'' then Some mode
                      else if k = ''MCP_AUTO_AUTH'' then Some ''false'' else None),
      load_json = (\<lambda>p. Inr demo_descriptor),
      network = (\<lambda>h r. Reply \<lparr>status_code = (if meth r = GET then 200 else code),
                                body = Some (JObj [])\<rparr>),
      conforms = (\<lambda>d sch. True),
      default_json_path = ''mcp_server_test/server.json'',
      py_repr = (\<lambda>v. ''?'')\<rparr>"

definition rejecting_world :: world where
  "rejecting_world =
     \<lparr>environ = (\<lambda>k. None),
      load_json = (\<lambda>p. Inr (JObj [(''version'', JStr ''1.0.0'')])),
      network = (\<lambda>h r. Reply \<lparr>status_code = 200, body = Some (JObj [])\<rparr>),
      conforms = (\<lambda>d sch. dict_has d ''name''),
      default_json_path = ''mcp_server_test/server.json'',
      py_repr = (\<lambda>v. ''?'')\<rparr>"

section \<open>Properties\<close>

text \<open>The definitions of the state transformers, for evaluating a run.\<close>

lemmas run_defs =
  bnd_def seq_def ret_def throw_def lift_def emit_def send_def catch_http_def
  raise_for_status_def response_json_def dget_def

subsection \<open>Percent-encoding and path segments\<close>

lemma hex_val_digit: "n < 16 \<Longrightarrow> hex_val (hex_digit n) = Some n"
proof -
  have "\<forall>k \<in> set [0..<16]. hex_val (hex_digit k) = Some k"
    by code_simp
  then show "n < 16 \<Longrightarrow> hex_val (hex_digit n) = Some n"
    by simp
qed

lemma of_char_div16: "of_char (c::char) div 16 < (16::nat)"
  using of_char_mod_256[of c, where ?'a = nat] by linarith

lemma percent_not_safe: "\<not> always_safe (CHR ''%'')"
  by (simp add: always_safe_def)

lemma unquote_other: "c \<noteq> CHR ''%'' \<Longrightarrow> unquote (c # cs) = c # unquote cs"
  by (cases cs rule: unquote.cases) auto

lemma unquote_escape:
  "unquote (CHR ''%'' # hex_digit (of_char c div 16) # hex_digit (of_char c mod 16) # cs)
     = c # unquote cs"
  by (simp add: hex_val_digit of_char_div16)

lemma unquote_quote: "CHR ''%'' \<notin> set safe \<Longrightarrow> unquote (quote s safe) = s"
proof (induction s)
  case Nil
  show ?case by (simp add: quote_def)
next
  case (Cons c s)
  have tl: "unquote (concat (map (quote_byte safe) s)) = s"
    using Cons by (simp add: quote_def)
  show ?case
  proof (cases "always_safe c \<or> c \<in> set safe")
    case True
    then have "c \<noteq> CHR ''%''"
      using percent_not_safe Cons.prems by auto
    then show ?thesis
      using True tl by (simp add: quote_def quote_byte_def unquote_other)
  next
    case False
    then show ?thesis
      using tl by (simp add: quote_def quote_byte_def unquote_escape del: unquote.simps)
  qed
qed

lemma hex_digit_no_slash: "n < 16 \<Longrightarrow> hex_digit n \<noteq> CHR ''/''"
proof -
  have "\<forall>k \<in> set [0..<16]. hex_digit k \<noteq> CHR ''/''"
    by code_simp
  then show "n < 16 \<Longrightarrow> hex_digit n \<noteq> CHR ''/''"
    by simp
qed

lemma quote_byte_no_slash: "CHR ''/'' \<notin> set safe \<Longrightarrow> CHR ''/'' \<notin> set (quote_byte safe c)"
  using hex_digit_no_slash[of "of_char c div 16"] hex_digit_no_slash[of "of_char c mod 16"]
  by (auto simp: quote_byte_def always_safe_def of_char_div16)

lemma quote_no_slash: "CHR ''/'' \<notin> set safe \<Longrightarrow> CHR ''/'' \<notin> set (quote s safe)"
  by (induction s) (auto simp: quote_def quote_byte_no_slash)

lemma split_on_single: "d \<notin> set a \<Longrightarrow> split_on d a = [a]"
  by (induction a) auto

lemma split_on_ne: "split_on d a \<noteq> []"
  by (induction a) (auto split: list.splits)

lemma split_on_append: "d \<notin> set a \<Longrightarrow> split_on d (a @ d # b) = a # split_on d b"
  by (induction a) (auto split: list.splits)

lemma split_on_parts: "w \<in> set (split_on d s) \<Longrightarrow> d \<notin> set w"
  by (induction s arbitrary: w) (auto split: list.splits if_splits)

lemma split_on_length: "length (split_on d s) = Suc (length (filter (\<lambda>c. c = d) s))"
  by (induction s) (auto split: list.splits simp: split_on_ne)

subsection \<open>The requests of the discovery client\<close>

lemma sent_request_chain:
  "sent (snd (bnd (send n r) (\<lambda>resp. bnd (raise_for_status resp) (\<lambda>_. response_json resp)) s))
     = sent s @ [r]"
  by (simp add: bnd_def send_def raise_for_status_def response_json_def throw_def ret_def
      split: reply.splits option.splits)

lemma sent_get_server_version:
  "sent (snd (get_server_version n cl server_name version s))
     = sent s @ [plain_get (version_url cl server_name version) []]"
  by (simp add: get_server_version_def sent_request_chain)

lemma sent_list_servers:
  "sent (snd (list_servers n cl search version limit cursor s))
     = sent s @ [list_request cl search version limit cursor]"
  by (simp add: list_servers_def sent_request_chain)

lemma quote_latest: "quote ''latest'' [] = ''latest''"
  by (simp add: quote_def quote_byte_def always_safe_def)

lemma split_version_path:
  "split_on (CHR ''/'') (''/servers/'' @ quote a [] @ ''/versions/'' @ quote b [])
     = [[], ''servers'', quote a [], ''versions'', quote b []]"
proof -
  have a: "CHR ''/'' \<notin> set (quote a [])" and b: "CHR ''/'' \<notin> set (quote b [])"
    by (simp_all add: quote_no_slash)
  have 1: "split_on (CHR ''/'') (quote b []) = [quote b []]"
    using b by (rule split_on_single)
  have 2: "split_on (CHR ''/'') (''versions'' @ CHR ''/'' # quote b []) = ''versions'' # [quote b []]"
    using 1 by (subst split_on_append) simp_all
  have 3: "split_on (CHR ''/'') (quote a [] @ CHR ''/'' # ''versions/'' @ quote b [])
             = quote a [] # ''versions'' # [quote b []]"
    using 2 a by (subst split_on_append) simp_all
  have 4: "split_on (CHR ''/'') (''servers'' @ CHR ''/'' # quote a [] @ CHR ''/'' # ''versions/'' @ quote b [])
             = ''servers'' # quote a [] # ''versions'' # [quote b []]"
    using 3 by (subst split_on_append) simp_all
  have 5: "split_on (CHR ''/'') ([] @ CHR ''/'' # ''servers/'' @ quote a [] @ CHR ''/'' # ''versions/'' @ quote b [])
             = [] # ''servers'' # quote a [] # ''versions'' # [quote b []]"
    using 4 by (subst split_on_append) simp_all
  show ?thesis using 5 by simp
qed

text \<open>
  Claim C6. \<^verbatim>\<open>get_server_version\<close> percent-encodes the name and the version each on
  its own and puts them into the path: the one request it makes goes to
  \<^verbatim>\<open>{api_base}/servers/{quote(name)}/versions/{quote(version)}\<close>; cut at the
  slashes, that path has the encoded name and the encoded version as one segment each,
  whatever characters (slashes included) the two texts hold; and decoding each
  segment gives the original text back.
\<close>

theorem get_server_version_path_encoding:
  "sent (snd (get_server_version n cl server_name version s))
     = sent s @ [plain_get (api_base cl @ ''/servers/'' @ quote server_name [] @ ''/versions/''
                             @ quote version []) []]
   \<and> split_on (CHR ''/'') (''/servers/'' @ quote server_name [] @ ''/versions/'' @ quote version [])
     = [[], ''servers'', quote server_name [], ''versions'', quote version []]
   \<and> unquote (quote server_name []) = server_name
   \<and> unquote (quote version []) = version"
  using split_version_path[of server_name version]
  by (simp add: sent_get_server_version version_url_def unquote_quote
      del: split_on.simps)

text \<open>
  Claim C5. \<^verbatim>\<open>get_server(name)\<close> is \<^verbatim>\<open>get_server_version(name, "latest")\<close>: the
  two are the same function of the registry and the log (same requests, same result,
  same exception), and the request goes to the path of the name with the version
  segment \<^verbatim>\<open>latest\<close>.
\<close>

theorem get_server_is_latest_version:
  "get_server n cl server_name = get_server_version n cl server_name ''latest''
   \<and> sent (snd (get_server n cl server_name s))
     = sent s @ [plain_get (api_base cl @ ''/servers/'' @ quote server_name [] @ ''/versions/latest'') []]"
  by (simp add: get_server_def sent_get_server_version version_url_def quote_latest)

text \<open>
  Claim C3, as stated, fails: \<^verbatim>\<open>list_servers(limit=500)\<close> sends the limit 500, which
  is outside 1 to 100. The function never clamps or checks the limit.
\<close>

theorem list_servers_limit_counterexample:
  "\<not> list_all limit_in_range
       (sent (snd (list_servers (\<lambda>h r. NoReply) (MCPRegistryClient ''http://localhost:8080'')
                     None ''latest'' 500 JNull start)))"
  by (simp add: sent_list_servers list_request_def list_params_def plain_get_def
      limit_in_range_def start_def)

text \<open>
  Claim C3, amended. Every call of \<^verbatim>\<open>list_servers\<close> makes one request, to
  \<^verbatim>\<open>{api_base}/servers\<close>, and sends the limit it was given unchanged; the
  \<^verbatim>\<open>search\<close> parameter is left out exactly when the search is \<^verbatim>\<open>None\<close> or the empty
  text, and the \<^verbatim>\<open>cursor\<close> parameter exactly when the cursor is \<^verbatim>\<open>None\<close> or another
  falsy value; a parameter that is sent carries the value given.
\<close>

theorem list_servers_request:
  "sent (snd (list_servers n cl search version limit cursor s))
     = sent s @ [list_request cl search version limit cursor]
   \<and> url (list_request cl search version limit cursor) = api_base cl @ ''/servers''
   \<and> map_of (params (list_request cl search version limit cursor)) ''limit'' = Some (JNum limit)
   \<and> map_of (params (list_request cl search version limit cursor)) ''search''
       = (case search of None \<Rightarrow> None | Some q \<Rightarrow> if q = [] then None else Some (JStr q))
   \<and> map_of (params (list_request cl search version limit cursor)) ''cursor''
       = (if truthy cursor then Some cursor else None)"
  by (simp add: sent_list_servers list_request_def list_params_def plain_get_def
      split: option.splits)

subsection \<open>The update endpoint of the publish script\<close>

lemma sent_update_server_version:
  "sent (snd (update_server_version w registry server_name version d tok s))
     = sent s @ [update_request w registry server_name version d tok]"
  by (simp add: update_server_version_def seq_def bnd_def emit_def send_def raise_for_status_def
      response_json_def throw_def ret_def
      split: reply.splits option.splits)

text \<open>
  Claim C10. \<^verbatim>\<open>update_server_version\<close> of the publish script puts the name and the
  version into the URL as they are: its one request is a PUT to
  \<^verbatim>\<open>{registry_url}/v0.1/servers/{name}/versions/{version}\<close>. For a name that holds a
  slash, no segment of that path is the name and the path has more than the six
  segments of the discovery client's path, where the encoded name is one segment.
\<close>

theorem update_endpoint_not_encoded:
  assumes "CHR ''/'' \<in> set name"
  shows "sent (snd (update_server_version w registry (JStr name) (JStr version) d tok s))
           = sent s @ [update_request w registry (JStr name) (JStr version) d tok]
   \<and> url (update_request w registry (JStr name) (JStr version) d tok)
       = registry @ ''/v0.1/servers/'' @ name @ ''/versions/'' @ version
   \<and> name \<notin> set (split_on (CHR ''/'') (''/v0.1/servers/'' @ name @ ''/versions/'' @ version))
   \<and> length (split_on (CHR ''/'') (''/v0.1/servers/'' @ name @ ''/versions/'' @ version)) > 6
   \<and> split_on (CHR ''/'') (''/v0.1'' @ ''/servers/'' @ quote name [] @ ''/versions/'' @ quote version [])
       = [[], ''v0.1'', ''servers'', quote name [], ''versions'', quote version []]"
proof -
  have seg: "name \<notin> set (split_on (CHR ''/'') (''/v0.1/servers/'' @ name @ ''/versions/'' @ version))"
    using assms split_on_parts by blast
  have "filter (\<lambda>c. c = CHR ''/'') name \<noteq> []"
    using assms by (simp add: filter_empty_conv)
  then have "length (filter (\<lambda>c. c = CHR ''/'') name) > 0" by simp
  then have len: "length (split_on (CHR ''/'') (''/v0.1/servers/'' @ name @ ''/versions/'' @ version)) > 6"
    by (simp add: split_on_length)
  have enc: "split_on (CHR ''/'') (''/v0.1'' @ ''/servers/'' @ quote name [] @ ''/versions/'' @ quote version [])
       = [[], ''v0.1'', ''servers'', quote name [], ''versions'', quote version []]"
  proof -
    have "split_on (CHR ''/'') ([] @ CHR ''/'' # ''v0.1'' @ CHR ''/'' # ''servers/'' @ quote name [] @ ''/versions/'' @ quote version [])
        = [] # split_on (CHR ''/'') (''v0.1'' @ CHR ''/'' # ''servers/'' @ quote name [] @ ''/versions/'' @ quote version [])"
      by (subst split_on_append) simp_all
    also have "split_on (CHR ''/'') (''v0.1'' @ CHR ''/'' # ''servers/'' @ quote name [] @ ''/versions/'' @ quote version [])
        = ''v0.1'' # split_on (CHR ''/'') (''servers/'' @ quote name [] @ ''/versions/'' @ quote version [])"
      by (subst split_on_append) simp_all
    also have "split_on (CHR ''/'') (''servers/'' @ quote name [] @ ''/versions/'' @ quote version [])
        = [''servers'', quote name [], ''versions'', quote version []]"
      using split_version_path[of name version] by (simp split: if_splits list.splits)
    finally show ?thesis by simp
  qed
  show ?thesis
    using seg len enc
    by (simp add: sent_update_server_version update_request_def update_endpoint_def py_str_def
        del: split_on.simps)
qed


theorem update_endpoint_not_encoded_witness:
  "CHR ''/'' \<in> set ''io.example/my-server''
   \<and> url (update_request bare_world ''http://localhost:8080'' (JStr ''io.example/my-server'')
            (JStr ''1.0.0'') JNull JNull)
       = ''http://localhost:8080/v0.1/servers/io.example/my-server/versions/1.0.0''
   \<and> ''io.example/my-server''
       \<notin> set (split_on (CHR ''/'') ''/v0.1/servers/io.example/my-server/versions/1.0.0'')"
proof -
  have h: "CHR ''/'' \<in> set ''io.example/my-server''"
    by simp
  show ?thesis
    using h update_endpoint_not_encoded [OF h, of bare_world "''http://localhost:8080''"
        "''1.0.0''" JNull JNull start]
    by simp
qed

subsection \<open>HTTP errors in the single-server examples\<close>

lemma get_server_version_error:
  assumes "n (sent s) (plain_get (version_url cl nm v) []) = Reply resp"
    and "400 \<le> status_code resp" and "status_code resp < 600"
  shows "get_server_version n cl nm v s
           = (Inl (HTTPError (status_code resp)),
              s\<lparr>sent := sent s @ [plain_get (version_url cl nm v) []]\<rparr>)"
  using assms
  by (simp add: get_server_version_def bnd_def send_def raise_for_status_def throw_def)

lemma list_server_versions_error:
  assumes "n (sent s) (plain_get (api_base cl @ ''/servers/'' @ quote nm [] @ ''/versions'') []) = Reply resp"
    and "400 \<le> status_code resp" and "status_code resp < 600"
  shows "list_server_versions n cl nm s
           = (Inl (HTTPError (status_code resp)),
              s\<lparr>sent := sent s @ [plain_get (api_base cl @ ''/servers/'' @ quote nm [] @ ''/versions'') []]\<rparr>)"
  using assms
  by (simp add: list_server_versions_def bnd_def send_def raise_for_status_def throw_def)

lemma catch_http_bnd_error:
  "m s = (Inl (HTTPError c), s') \<Longrightarrow> catch_http (bnd m f) h s = h c s'"
  by (simp add: catch_http_def bnd_def)

lemma example_2_error:
  assumes "n (sent s) (plain_get (version_url cl nm ''latest'') []) = Reply resp"
    and "400 \<le> status_code resp" and "status_code resp < 600"
  shows "example_2_get_specific_server n cl nm s =
     (if status_code resp = 404
      then (Inr (), s\<lparr>sent := sent s @ [plain_get (version_url cl nm ''latest'') []],
                      out := out s @ [Say ''EXAMPLE 2: Get Server Details'' [],
                                      Say ''Server not found in registry'' [JStr nm]]\<rparr>)
      else (Inl (HTTPError (status_code resp)),
            s\<lparr>sent := sent s @ [plain_get (version_url cl nm ''latest'') []],
              out := out s @ [Say ''EXAMPLE 2: Get Server Details'' []]\<rparr>))"
proof -
  let ?s0 = "s\<lparr>out := out s @ [Say ''EXAMPLE 2: Get Server Details'' []]\<rparr>"
  have "get_server n cl nm ?s0
          = (Inl (HTTPError (status_code resp)),
             ?s0\<lparr>sent := sent ?s0 @ [plain_get (version_url cl nm ''latest'') []]\<rparr>)"
    unfolding get_server_def using assms by (intro get_server_version_error) simp_all
  then show ?thesis
    by (simp add: example_2_get_specific_server_def seq_def bnd_def[of "emit _"] emit_def
        catch_http_bnd_error throw_def)
qed

lemma example_3_error:
  assumes "n (sent s) (plain_get (api_base cl @ ''/servers/'' @ quote nm [] @ ''/versions'') []) = Reply resp"
    and "400 \<le> status_code resp" and "status_code resp < 600"
  shows "example_3_list_versions n cl nm s =
     (if status_code resp = 404
      then (Inr (), s\<lparr>sent := sent s @ [plain_get (api_base cl @ ''/servers/'' @ quote nm [] @ ''/versions'') []],
                      out := out s @ [Say ''EXAMPLE 3: List All Versions'' [],
                                      Say ''Server not found'' [JStr nm]]\<rparr>)
      else (Inl (HTTPError (status_code resp)),
            s\<lparr>sent := sent s @ [plain_get (api_base cl @ ''/servers/'' @ quote nm [] @ ''/versions'') []],
              out := out s @ [Say ''EXAMPLE 3: List All Versions'' []]\<rparr>))"
proof -
  let ?s0 = "s\<lparr>out := out s @ [Say ''EXAMPLE 3: List All Versions'' []]\<rparr>"
  have "list_server_versions n cl nm ?s0
          = (Inl (HTTPError (status_code resp)),
             ?s0\<lparr>sent := sent ?s0 @ [plain_get (api_base cl @ ''/servers/'' @ quote nm [] @ ''/versions'') []]\<rparr>)"
    using assms by (intro list_server_versions_error) simp_all
  then show ?thesis
    by (simp add: example_3_list_versions_def seq_def bnd_def[of "emit _"] emit_def
        catch_http_bnd_error throw_def)
qed

lemma example_5_error:
  assumes "n (sent s) (plain_get (version_url cl nm ''latest'') []) = Reply resp"
    and "400 \<le> status_code resp" and "status_code resp < 600"
  shows "example_5_installation_info n cl nm s =
     (if status_code resp = 404
      then (Inr (), s\<lparr>sent := sent s @ [plain_get (version_url cl nm ''latest'') []],
                      out := out s @ [Say ''EXAMPLE 5: How to Use This Server'' [],
                                      Say ''Server not found'' [JStr nm]]\<rparr>)
      else (Inl (HTTPError (status_code resp)),
            s\<lparr>sent := sent s @ [plain_get (version_url cl nm ''latest'') []],
              out := out s @ [Say ''EXAMPLE 5: How to Use This Server'' []]\<rparr>))"
proof -
  let ?s0 = "s\<lparr>out := out s @ [Say ''EXAMPLE 5: How to Use This Server'' []]\<rparr>"
  have "get_server n cl nm ?s0
          = (Inl (HTTPError (status_code resp)),
             ?s0\<lparr>sent := sent ?s0 @ [plain_get (version_url cl nm ''latest'') []]\<rparr>)"
    unfolding get_server_def using assms by (intro get_server_version_error) simp_all
  then show ?thesis
    by (simp add: example_5_installation_info_def seq_def bnd_def[of "emit _"] emit_def
        catch_http_bnd_error throw_def)
qed

text \<open>
  Claim C8. In each single-server lookup of the discovery script (example 2, the
  details; example 3, the versions; example 5, the installation guide), when the
  registry answers the lookup with an HTTP error status (400 to 599): on 404 the
  example prints its not-found message and returns normally, having made that one
  request; on any other error status the \<^verbatim>\<open>HTTPError\<close> of that status leaves the
  example, with nothing printed after the banner.
\<close>

theorem single_lookup_404_is_caught:
  "(n (sent s) (plain_get (version_url cl nm ''latest'') []) = Reply resp
      \<and> 400 \<le> status_code resp \<and> status_code resp < 600 \<longrightarrow>
      example_2_get_specific_server n cl nm s =
        (if status_code resp = 404
         then (Inr (), s\<lparr>sent := sent s @ [plain_get (version_url cl nm ''latest'') []],
                         out := out s @ [Say ''EXAMPLE 2: Get Server Details'' [],
                                         Say ''Server not found in registry'' [JStr nm]]\<rparr>)
         else (Inl (HTTPError (status_code resp)),
               s\<lparr>sent := sent s @ [plain_get (version_url cl nm ''latest'') []],
                 out := out s @ [Say ''EXAMPLE 2: Get Server Details'' []]\<rparr>))
      \<and> example_5_installation_info n cl nm s =
        (if status_code resp = 404
         then (Inr (), s\<lparr>sent := sent s @ [plain_get (version_url cl nm ''latest'') []],
                         out := out s @ [Say ''EXAMPLE 5: How to Use This Server'' [],
                                         Say ''Server not found'' [JStr nm]]\<rparr>)
         else (Inl (HTTPError (status_code resp)),
               s\<lparr>sent := sent s @ [plain_get (version_url cl nm ''latest'') []],
                 out := out s @ [Say ''EXAMPLE 5: How to Use This Server'' []]\<rparr>)))
   \<and> (n (sent s) (plain_get (api_base cl @ ''/servers/'' @ quote nm [] @ ''/versions'') []) = Reply resp
      \<and> 400 \<le> status_code resp \<and> status_code resp < 600 \<longrightarrow>
      example_3_list_versions n cl nm s =
        (if status_code resp = 404
         then (Inr (), s\<lparr>sent := sent s @ [plain_get (api_base cl @ ''/servers/'' @ quote nm [] @ ''/versions'') []],
                         out := out s @ [Say ''EXAMPLE 3: List All Versions'' [],
                                         Say ''Server not found'' [JStr nm]]\<rparr>)
         else (Inl (HTTPError (status_code resp)),
               s\<lparr>sent := sent s @ [plain_get (api_base cl @ ''/servers/'' @ quote nm [] @ ''/versions'') []],
                 out := out s @ [Say ''EXAMPLE 3: List All Versions'' []]\<rparr>)))"
  using example_2_error[of n s cl nm resp] example_3_error[of n s cl nm resp]
    example_5_error[of n s cl nm resp]
  by blast

theorem single_lookup_404_is_caught_witness:
  "example_2_get_specific_server (answering 404) (MCPRegistryClient ''http://r'') ''a/b'' start
     = (Inr (), \<lparr>sent = [plain_get ''http://r/v0.1/servers/a%2Fb/versions/latest'' []],
                 out = [Say ''EXAMPLE 2: Get Server Details'' [],
                        Say ''Server not found in registry'' [JStr ''a/b'']]\<rparr>)
   \<and> example_5_installation_info (answering 404) (MCPRegistryClient ''http://r'') ''a/b'' start
     = (Inr (), \<lparr>sent = [plain_get ''http://r/v0.1/servers/a%2Fb/versions/latest'' []],
                 out = [Say ''EXAMPLE 5: How to Use This Server'' [],
                        Say ''Server not found'' [JStr ''a/b'']]\<rparr>)
   \<and> example_3_list_versions (answering 404) (MCPRegistryClient ''http://r'') ''a/b'' start
     = (Inr (), \<lparr>sent = [plain_get ''http://r/v0.1/servers/a%2Fb/versions'' []],
                 out = [Say ''EXAMPLE 3: List All Versions'' [],
                        Say ''Server not found'' [JStr ''a/b'']]\<rparr>)
   \<and> example_2_get_specific_server (answering 503) (MCPRegistryClient ''http://r'') ''a/b'' start
     = (Inl (HTTPError 503),
        \<lparr>sent = [plain_get ''http://r/v0.1/servers/a%2Fb/versions/latest'' []],
         out = [Say ''EXAMPLE 2: Get Server Details'' []]\<rparr>)"
proof -
  have q: "quote ''a/b'' [] = ''a%2Fb''" "quote ''latest'' [] = ''latest''"
    by (simp_all add: quote_def quote_byte_def always_safe_def hex_digit_def)
  have c: "MCPRegistryClient ''http://r'' = \<lparr>registry_url = ''http://r'', api_base = ''http://r/v0.1''\<rparr>"
    by (simp add: MCPRegistryClient_def rstrip_def)
  show ?thesis
    using single_lookup_404_is_caught
            [of "answering 404" start "MCPRegistryClient ''http://r''" "''a/b''"
                "\<lparr>status_code = 404, body = None\<rparr>"]
          single_lookup_404_is_caught
            [of "answering 503" start "MCPRegistryClient ''http://r''" "''a/b''"
                "\<lparr>status_code = 503, body = None\<rparr>"]
    by (simp add: answering_def start_def version_url_def q c)
qed

subsection \<open>A failure in one example and its siblings\<close>

lemma quote_server_name:
  "quote consume_server_name [] = ''io.modelcontextprotocol.anonymous%2Fmcp-math-server''"
  by (simp add: consume_server_name_def quote_def quote_byte_def always_safe_def hex_digit_def)

lemma consume_client:
  "MCPRegistryClient consume_url
     = \<lparr>registry_url = ''http://localhost:8080'', api_base = ''http://localhost:8080/v0.1''\<rparr>"
  by (simp add: MCPRegistryClient_def consume_url_def rstrip_def)

lemma example_1_failing:
  "example_1_search_servers failing_registry (MCPRegistryClient consume_url) s
     = (Inr (), s\<lparr>sent := sent s @ [list_request (MCPRegistryClient consume_url) (Some ''math'') ''latest'' 10 JNull],
                  out := out s @ [Say ''EXAMPLE 1: Search for Math Servers'' [],
                                  Say ''Found server(s) matching math:'' [JNum 0]]\<rparr>)"
  by (simp add: example_1_search_servers_def list_servers_def run_defs failing_registry_def
      list_request_def plain_get_def consume_client list_params_def)

lemma example_2_failing:
  "example_2_get_specific_server failing_registry (MCPRegistryClient consume_url) consume_server_name s
     = (Inl (HTTPError 500),
        s\<lparr>sent := sent s @ [plain_get ''http://localhost:8080/v0.1/servers/io.modelcontextprotocol.anonymous%2Fmcp-math-server/versions/latest'' []],
          out := out s @ [Say ''EXAMPLE 2: Get Server Details'' []]\<rparr>)"
  using example_2_error[of failing_registry s "MCPRegistryClient consume_url" consume_server_name
      "\<lparr>status_code = 500, body = None\<rparr>"]
  by (simp add: failing_registry_def version_url_def quote_server_name quote_latest consume_client
      plain_get_def)

lemma run_examples_failing:
  "run_examples failing_registry (MCPRegistryClient consume_url) consume_server_name s
     = Some (Inl (HTTPError 500),
        s\<lparr>sent := sent s @ [list_request (MCPRegistryClient consume_url) (Some ''math'') ''latest'' 10 JNull,
                           plain_get ''http://localhost:8080/v0.1/servers/io.modelcontextprotocol.anonymous%2Fmcp-math-server/versions/latest'' []],
          out := out s @ [Say ''EXAMPLE 1: Search for Math Servers'' [],
                          Say ''Found server(s) matching math:'' [JNum 0],
                          Say ''EXAMPLE 2: Get Server Details'' []]\<rparr>)"
  by (simp add: run_examples_def seq_def bnd_def example_1_failing example_2_failing)

lemma health_failing:
  "failing_registry h (plain_get (consume_url @ ''/health'') [])
     = Reply \<lparr>status_code = 200, body = Some (JObj [(''servers'', JArr [])])\<rparr>"
  by (simp add: failing_registry_def consume_url_def plain_get_def)

text \<open>
  Claim C4, as stated, fails. On a registry that answers the lookup of example 2 with
  500, the run makes three requests (health, the search of example 1, the lookup of
  example 2) and prints the error report right after the banner of example 2:
  examples 3, 4 and 5 never start.
\<close>

theorem siblings_do_not_run_counterexample:
  "map_option (\<lambda>l. (map url (sent l), out l)) (consume_main failing_registry start)
     = Some ([''http://localhost:8080/health'',
              ''http://localhost:8080/v0.1/servers'',
              ''http://localhost:8080/v0.1/servers/io.modelcontextprotocol.anonymous%2Fmcp-math-server/versions/latest''],
             [Say ''MCP Registry Consumer - Example Usage'' [],
              Say ''Registry URL:'' [JStr ''http://localhost:8080''],
              Say ''Registry is accessible'' [],
              Say ''EXAMPLE 1: Search for Math Servers'' [],
              Say ''Found server(s) matching math:'' [JNum 0],
              Say ''EXAMPLE 2: Get Server Details'' [],
              ErrorReport (HTTPError 500)])"
proof -
  have "consume_main failing_registry start
          = Some \<lparr>sent = [plain_get (consume_url @ ''/health'') [],
                          list_request (MCPRegistryClient consume_url) (Some ''math'') ''latest'' 10 JNull,
                          plain_get ''http://localhost:8080/v0.1/servers/io.modelcontextprotocol.anonymous%2Fmcp-math-server/versions/latest'' []],
                  out = [Say ''MCP Registry Consumer - Example Usage'' [],
                         Say ''Registry URL:'' [JStr consume_url],
                         Say ''Registry is accessible'' [],
                         Say ''EXAMPLE 1: Search for Math Servers'' [],
                         Say ''Found server(s) matching math:'' [JNum 0],
                         Say ''EXAMPLE 2: Get Server Details'' [],
                         ErrorReport (HTTPError 500)]\<rparr>"
    by (simp add: consume_main_def emit_def send_def health_failing run_examples_failing start_def)
  then show ?thesis
    by (simp add: consume_url_def MCPRegistryClient_def rstrip_def list_request_def plain_get_def)
qed

text \<open>
  Claim C4, amended. The five examples run inside one \<^verbatim>\<open>try\<close>: an exception that
  leaves an example (a non-404 HTTP failure among them) ends that example and every
  later one. The driver catches it, prints the error report after what the examples
  before it and the failing one have printed, and returns normally; the log (requests
  and messages) is the one the failing example left. When all five return, the
  closing lines are printed.
\<close>

theorem first_failure_ends_the_examples:
  assumes health: "n (sent s) (plain_get (consume_url @ ''/health'') []) = Reply resp0"
    and cl: "cl = MCPRegistryClient consume_url"
    and nm: "nm = consume_server_name"
    and s1: "s1 = s\<lparr>sent := sent s @ [plain_get (consume_url @ ''/health'') []],
                    out := out s @ [Say ''MCP Registry Consumer - Example Usage'' [],
                                    Say ''Registry URL:'' [JStr consume_url],
                                    Say ''Registry is accessible'' []]\<rparr>"
  shows
    "(example_1_search_servers n cl s1 = (Inl e, s') \<longrightarrow>
        consume_main n s = Some (s'\<lparr>out := out s' @ [ErrorReport e]\<rparr>))
   \<and> (example_1_search_servers n cl s1 = (Inr (), s2)
        \<and> example_2_get_specific_server n cl nm s2 = (Inl e, s') \<longrightarrow>
        consume_main n s = Some (s'\<lparr>out := out s' @ [ErrorReport e]\<rparr>))
   \<and> (example_1_search_servers n cl s1 = (Inr (), s2)
        \<and> example_2_get_specific_server n cl nm s2 = (Inr (), s3)
        \<and> example_3_list_versions n cl nm s3 = (Inl e, s') \<longrightarrow>
        consume_main n s = Some (s'\<lparr>out := out s' @ [ErrorReport e]\<rparr>))
   \<and> (example_1_search_servers n cl s1 = (Inr (), s2)
        \<and> example_2_get_specific_server n cl nm s2 = (Inr (), s3)
        \<and> example_3_list_versions n cl nm s3 = (Inr (), s4)
        \<and> example_4_list_all_servers n cl s4 = Some (Inl e, s') \<longrightarrow>
        consume_main n s = Some (s'\<lparr>out := out s' @ [ErrorReport e]\<rparr>))
   \<and> (example_1_search_servers n cl s1 = (Inr (), s2)
        \<and> example_2_get_specific_server n cl nm s2 = (Inr (), s3)
        \<and> example_3_list_versions n cl nm s3 = (Inr (), s4)
        \<and> example_4_list_all_servers n cl s4 = Some (Inr (), s5)
        \<and> example_5_installation_info n cl nm s5 = (Inl e, s') \<longrightarrow>
        consume_main n s = Some (s'\<lparr>out := out s' @ [ErrorReport e]\<rparr>))
   \<and> (example_1_search_servers n cl s1 = (Inr (), s2)
        \<and> example_2_get_specific_server n cl nm s2 = (Inr (), s3)
        \<and> example_3_list_versions n cl nm s3 = (Inr (), s4)
        \<and> example_4_list_all_servers n cl s4 = Some (Inr (), s5)
        \<and> example_5_installation_info n cl nm s5 = (Inr (), s6) \<longrightarrow>
        consume_main n s
          = Some (s6\<lparr>out := out s6 @ [Say ''All examples completed successfully!'' [],
                                       Say ''Next Steps:'' []]\<rparr>))"
proof -
  have main: "consume_main n s =
      (case run_examples n cl nm s1 of
         None \<Rightarrow> None
       | Some (Inl e, s2) \<Rightarrow> Some (s2\<lparr>out := out s2 @ [ErrorReport e]\<rparr>)
       | Some (Inr _, s2) \<Rightarrow> Some s2)"
    using health
    by (simp add: consume_main_def emit_def send_def cl nm s1
        split: option.split prod.split sum.split)
  show ?thesis
    unfolding main
    by (simp add: run_examples_def seq_def bnd_def emit_def)
qed

theorem first_failure_ends_the_examples_witness:
  "failing_registry (sent start) (plain_get (consume_url @ ''/health'') [])
     = Reply \<lparr>status_code = 200, body = Some (JObj [(''servers'', JArr [])])\<rparr>
   \<and> fst (example_1_search_servers failing_registry (MCPRegistryClient consume_url)
        (start\<lparr>sent := sent start @ [plain_get (consume_url @ ''/health'') []],
               out := out start @ [Say ''MCP Registry Consumer - Example Usage'' [],
                                   Say ''Registry URL:'' [JStr consume_url],
                                   Say ''Registry is accessible'' []]\<rparr>)) = Inr ()
   \<and> fst (example_2_get_specific_server failing_registry (MCPRegistryClient consume_url)
        consume_server_name
        (snd (example_1_search_servers failing_registry (MCPRegistryClient consume_url)
          (start\<lparr>sent := sent start @ [plain_get (consume_url @ ''/health'') []],
                 out := out start @ [Say ''MCP Registry Consumer - Example Usage'' [],
                                     Say ''Registry URL:'' [JStr consume_url],
                                     Say ''Registry is accessible'' []]\<rparr>))))
       = Inl (HTTPError 500)
   \<and> map_option (\<lambda>l. map url (sent l)) (consume_main failing_registry start)
       = Some [''http://localhost:8080/health'',
               ''http://localhost:8080/v0.1/servers'',
               ''http://localhost:8080/v0.1/servers/io.modelcontextprotocol.anonymous%2Fmcp-math-server/versions/latest'']
   \<and> map_option (\<lambda>l. last (out l)) (consume_main failing_registry start)
       = Some (ErrorReport (HTTPError 500))"
proof -
  let ?cl = "MCPRegistryClient consume_url"
  let ?s1 = "start\<lparr>sent := sent start @ [plain_get (consume_url @ ''/health'') []],
               out := out start @ [Say ''MCP Registry Consumer - Example Usage'' [],
                                   Say ''Registry URL:'' [JStr consume_url],
                                   Say ''Registry is accessible'' []]\<rparr>"
  let ?s2 = "?s1\<lparr>sent := sent ?s1 @ [list_request ?cl (Some ''math'') ''latest'' 10 JNull],
                  out := out ?s1 @ [Say ''EXAMPLE 1: Search for Math Servers'' [],
                                  Say ''Found server(s) matching math:'' [JNum 0]]\<rparr>"
  let ?s3 = "?s2\<lparr>sent := sent ?s2 @ [plain_get ''http://localhost:8080/v0.1/servers/io.modelcontextprotocol.anonymous%2Fmcp-math-server/versions/latest'' []],
          out := out ?s2 @ [Say ''EXAMPLE 2: Get Server Details'' []]\<rparr>"
  have h: "failing_registry (sent start) (plain_get (consume_url @ ''/health'') [])
     = Reply \<lparr>status_code = 200, body = Some (JObj [(''servers'', JArr [])])\<rparr>"
    by (rule health_failing)
  have e1: "example_1_search_servers failing_registry ?cl ?s1 = (Inr (), ?s2)"
    by (rule example_1_failing)
  have e2: "example_2_get_specific_server failing_registry ?cl consume_server_name ?s2
              = (Inl (HTTPError 500), ?s3)"
    by (rule example_2_failing)
  have "consume_main failing_registry start = Some (?s3\<lparr>out := out ?s3 @ [ErrorReport (HTTPError 500)]\<rparr>)"
    using first_failure_ends_the_examples
            [where n = failing_registry and s = start and e = "HTTPError 500" and s' = ?s3
               and ?s2.0 = ?s2, OF h refl refl refl] e1 e2
    by blast
  then show ?thesis
    using h e1 e2
    by (simp add: start_def consume_url_def MCPRegistryClient_def rstrip_def list_request_def
        plain_get_def)
qed

subsection \<open>Pagination\<close>

lemma page_step_served:
  assumes "n (sent s) (list_request cl None ''latest'' 10 cursor) = Reply resp"
    and "\<not> (400 \<le> status_code resp \<and> status_code resp < 600)"
    and "body resp = Some b"
    and "dict_get b ''servers'' (JArr []) = Inr (JArr items)"
    and "dict_get b ''nextCursor'' JNull = Inr nxt"
  shows "page_step n cl acc cursor page s
           = (Inr (acc @ items, nxt),
              s\<lparr>sent := sent s @ [list_request cl None ''latest'' 10 cursor],
                out := out s @ [Say ''Page: Found servers'' [JNum page, JNum (int (length items))]]\<rparr>)"
  using assms
  by (simp add: page_step_def list_servers_def run_defs)

lemma paginate_served:
  "pages_served n cl (sent s) cursor pages \<Longrightarrow>
   paginate n cl acc cursor page s
     = Some (Inr (acc @ concat (map fst pages)),
             s\<lparr>sent := sent s @ map (list_request cl None ''latest'' 10)
                                   (cursor # map snd (butlast pages)),
               out := out s @ page_lines page pages\<rparr>)"
proof (induction pages arbitrary: s cursor acc page)
  case Nil
  then show ?case by simp
next
  case (Cons p rest)
  let ?req = "list_request cl None ''latest'' 10 cursor"
  from Cons.prems obtain resp b where
    r: "n (sent s) ?req = Reply resp"
    and ok: "\<not> (400 \<le> status_code resp \<and> status_code resp < 600)"
    and b: "body resp = Some b"
    and items: "dict_get b ''servers'' (JArr []) = Inr (JArr (fst p))"
    and nxt: "dict_get b ''nextCursor'' JNull = Inr (snd p)"
    and more: "if rest = [] then \<not> truthy (snd p)
               else truthy (snd p) \<and> pages_served n cl (sent s @ [?req]) (snd p) rest"
    by (auto split: reply.splits option.splits)
  let ?s1 = "s\<lparr>sent := sent s @ [?req],
               out := out s @ [Say ''Page: Found servers'' [JNum page, JNum (int (length (fst p)))]]\<rparr>"
  have step: "page_step n cl acc cursor page s = (Inr (acc @ fst p, snd p), ?s1)"
    using r ok b items nxt by (rule page_step_served)
  show ?case
  proof (cases "rest = []")
    case True
    with more have "\<not> truthy (snd p)" by simp
    then show ?thesis
      using True step by (subst paginate.simps) simp
  next
    case False
    with more have t: "truthy (snd p)"
      and served: "pages_served n cl (sent ?s1) (snd p) rest" by simp_all
    have "paginate n cl acc cursor page s = paginate n cl (acc @ fst p) (snd p) (page + 1) ?s1"
      using t step by (subst paginate.simps) simp
    also have "\<dots> = Some (Inr ((acc @ fst p) @ concat (map fst rest)),
             ?s1\<lparr>sent := sent ?s1 @ map (list_request cl None ''latest'' 10)
                                   (snd p # map snd (butlast rest)),
               out := out ?s1 @ page_lines (page + 1) rest\<rparr>)"
      using served by (rule Cons.IH)
    finally show ?thesis
      using False by simp
  qed
qed

lemma sent_for_each:
  assumes "\<And>x t. sent (snd (f x t)) = sent t"
  shows "sent (snd (for_each xs f s)) = sent s"
proof (induction xs arbitrary: s)
  case Nil
  show ?case by (simp add: ret_def)
next
  case (Cons x xs)
  obtain r s' where fx: "f x s = (r, s')" by (cases "f x s")
  have "sent s' = sent s" using assms[of x s] fx by simp
  then show ?case
    using fx Cons.IH[of s'] by (cases r) (simp_all add: bnd_def)
qed

lemma out_for_each:
  assumes "\<And>x t. set (out t) \<subseteq> set (out (snd (f x t)))"
  shows "set (out s) \<subseteq> set (out (snd (for_each xs f s)))"
proof (induction xs arbitrary: s)
  case Nil
  show ?case by (simp add: ret_def)
next
  case (Cons x xs)
  obtain r s' where fx: "f x s = (r, s')" by (cases "f x s")
  have "set (out s) \<subseteq> set (out s')" using assms[of s x] fx by simp
  then show ?case
    using fx Cons.IH[of s'] by (cases r) (auto simp: bnd_def)
qed

lemma sent_print_all_servers: "sent (snd (print_all_servers xs s)) = sent s"
proof -
  have "sent (snd (for_each xs (\<lambda>server_data.
       bnd (dget server_data ''server'' (JObj [])) (\<lambda>server.
       bnd (dget server ''name'' JNull) (\<lambda>nm.
       bnd (dget server ''version'' JNull) (\<lambda>ver.
       emit [Say ''server:'' [nm, ver]])))) t)) = sent t" for t
    by (rule sent_for_each) (simp add: run_defs split: sum.splits)
  then show ?thesis
    by (simp add: print_all_servers_def seq_def bnd_def emit_def)
qed

lemma out_print_all_servers:
  "Say ''Total servers in registry:'' [JNum (int (length xs))] \<in> set (out (snd (print_all_servers xs s)))"
proof -
  have "set (out t) \<subseteq> set (out (snd (for_each xs (\<lambda>server_data.
       bnd (dget server_data ''server'' (JObj [])) (\<lambda>server.
       bnd (dget server ''name'' JNull) (\<lambda>nm.
       bnd (dget server ''version'' JNull) (\<lambda>ver.
       emit [Say ''server:'' [nm, ver]])))) t)))" for t
    by (rule out_for_each) (auto simp: run_defs split: sum.splits)
  from this[of "s\<lparr>out := out s @ [Say ''Total servers in registry:'' [JNum (int (length xs))],
                Say ''Servers:'' []]\<rparr>"]
  show ?thesis
    by (auto simp: print_all_servers_def seq_def bnd_def emit_def)
qed

text \<open>
  Claim C9. On a registry that hands out \<open>N\<close> pages, the last one without a next
  cursor, the listing loop of example 4 returns: it makes exactly \<open>N\<close> listing calls
  (the first without a cursor, each later one with the cursor of the page before) and
  its result is the concatenation of the items of the pages, in order. Example 4 as a
  whole returns too, after those \<open>N\<close> calls, and prints the length of that
  concatenation as the total.
\<close>

theorem pagination_terminates_with_catalog:
  assumes "pages_served n cl (sent s) JNull pages"
  shows "(\<exists>s'. paginate n cl [] JNull 1 s = Some (Inr (concat (map fst pages)), s')
             \<and> sent s' = sent s @ map (list_request cl None ''latest'' 10)
                                     (JNull # map snd (butlast pages))
             \<and> length (sent s') = length (sent s) + length pages)
       \<and> (\<exists>r s'. example_4_list_all_servers n cl s = Some (r, s')
             \<and> length (sent s') = length (sent s) + length pages
             \<and> Say ''Total servers in registry:'' [JNum (int (length (concat (map fst pages))))]
                 \<in> set (out s'))"
proof -
  have ne: "pages \<noteq> []" using assms by auto
  let ?reqs = "map (list_request cl None ''latest'' 10) (JNull # map snd (butlast pages))"
  have len: "length ?reqs = length pages" using ne by simp
  have p: "paginate n cl [] JNull 1 t
     = Some (Inr (concat (map fst pages)),
             t\<lparr>sent := sent t @ ?reqs, out := out t @ page_lines 1 pages\<rparr>)"
    if "sent t = sent s" for t
    using paginate_served[of n cl t JNull pages "[]" 1] assms that by simp
  have first: "\<exists>s'. paginate n cl [] JNull 1 s = Some (Inr (concat (map fst pages)), s')
             \<and> sent s' = sent s @ ?reqs
             \<and> length (sent s') = length (sent s) + length pages"
    using p[of s] len by simp
  let ?s0 = "s\<lparr>out := out s @ [Say ''EXAMPLE 4: List All Servers (with pagination)'' []]\<rparr>"
  let ?s1 = "?s0\<lparr>sent := sent ?s0 @ ?reqs, out := out ?s0 @ page_lines 1 pages\<rparr>"
  have e4: "example_4_list_all_servers n cl s
              = Some (print_all_servers (concat (map fst pages)) ?s1)"
    using p[of ?s0] by (simp add: example_4_list_all_servers_def emit_def)
  have "length (sent (snd (print_all_servers (concat (map fst pages)) ?s1)))
          = length (sent s) + length pages"
    using len by (simp add: sent_print_all_servers)
  moreover have "Say ''Total servers in registry:'' [JNum (int (length (concat (map fst pages))))]
      \<in> set (out (snd (print_all_servers (concat (map fst pages)) ?s1)))"
    by (rule out_print_all_servers)
  ultimately have second: "\<exists>r s'. example_4_list_all_servers n cl s = Some (r, s')
             \<and> length (sent s') = length (sent s) + length pages
             \<and> Say ''Total servers in registry:'' [JNum (int (length (concat (map fst pages))))]
                 \<in> set (out s')"
    using e4 by (metis prod.collapse)
  show ?thesis using first second by blast
qed

theorem pagination_terminates_with_catalog_witness:
  "pages_served two_pages (MCPRegistryClient ''http://r'') (sent start) JNull
     [([catalog_item ''a'', catalog_item ''b''], JStr ''p2''), ([catalog_item ''c''], JNull)]
   \<and> map_option fst (paginate two_pages (MCPRegistryClient ''http://r'') [] JNull 1 start)
       = Some (Inr [catalog_item ''a'', catalog_item ''b'', catalog_item ''c''])
   \<and> map_option (\<lambda>r. map params (sent (snd r)))
        (paginate two_pages (MCPRegistryClient ''http://r'') [] JNull 1 start)
       = Some [[(''limit'', JNum 10), (''version'', JStr ''latest'')],
               [(''limit'', JNum 10), (''version'', JStr ''latest''), (''cursor'', JStr ''p2'')]]
   \<and> map_option (\<lambda>r. length (sent (snd r)))
        (example_4_list_all_servers two_pages (MCPRegistryClient ''http://r'') start) = Some 2"
proof -
  have h: "pages_served two_pages (MCPRegistryClient ''http://r'') (sent start) JNull
     [([catalog_item ''a'', catalog_item ''b''], JStr ''p2''), ([catalog_item ''c''], JNull)]"
    by (simp add: two_pages_def list_request_def list_params_def plain_get_def)
  show ?thesis
    using h pagination_terminates_with_catalog [OF h]
    by (auto simp: start_def list_request_def list_params_def plain_get_def)
qed

subsection \<open>What the publish script writes to the registry\<close>

lemma quiet_ret: "quiet w (ret x)"
  by (simp add: quiet_def ret_def)

lemma quiet_throw: "quiet w (throw e)"
  by (simp add: quiet_def throw_def)

lemma quiet_lift: "quiet w (lift r)"
  by (simp add: quiet_def lift_def)

lemma quiet_dget: "quiet w (dget j k d)"
  by (simp add: dget_def quiet_lift)

lemma quiet_emit: "quiet w (emit es)"
  by (simp add: quiet_def emit_def submissions_def)

lemma quiet_send: "\<not> is_submission w r \<Longrightarrow> quiet w (send n r)"
  by (simp add: quiet_def send_def submissions_def split: reply.splits)

lemma quiet_raise_for_status: "quiet w (raise_for_status resp)"
  by (simp add: raise_for_status_def quiet_ret quiet_throw)

lemma quiet_response_json: "quiet w (response_json resp)"
  by (simp add: response_json_def quiet_ret quiet_throw split: option.splits)

lemma quiet_bnd:
  assumes "quiet w m" and "\<And>x. quiet w (f x)"
  shows "quiet w (bnd m f)"
  unfolding quiet_def
proof
  fix s
  obtain r s' where ms: "m s = (r, s')" by (cases "m s")
  have 1: "submissions w s' = submissions w s"
    using assms(1) ms by (auto simp: quiet_def dest: spec[of _ s])
  show "submissions w (snd (bnd m f s)) = submissions w s"
  proof (cases r)
    case (Inl e)
    then show ?thesis using ms 1 by (simp add: bnd_def)
  next
    case (Inr x)
    have "submissions w (snd (f x s')) = submissions w s'"
      using assms(2)[of x] by (simp add: quiet_def)
    then show ?thesis using ms 1 Inr by (simp add: bnd_def)
  qed
qed

lemma quiet_seq: "quiet w m \<Longrightarrow> quiet w k \<Longrightarrow> quiet w (seq m k)"
  by (simp add: seq_def quiet_bnd)

lemma quiet_if: "quiet w a \<Longrightarrow> quiet w b \<Longrightarrow> quiet w (if c then a else b)"
  by simp

lemma quiet_for_each: "(\<And>x. quiet w (f x)) \<Longrightarrow> quiet w (for_each xs f)"
  by (induction xs) (simp_all add: quiet_ret quiet_bnd)

lemmas quiet_intros =
  quiet_bnd quiet_seq quiet_if quiet_for_each quiet_ret quiet_throw quiet_lift quiet_dget
  quiet_emit quiet_raise_for_status quiet_response_json

lemma quiet_validate: "quiet w (validate_server_json w p)"
  unfolding validate_server_json_def
  by (intro quiet_intros quiet_send) (simp add: is_submission_def schema_request_def)

lemma quiet_show_packages: "quiet w (show_packages d)"
  unfolding show_packages_def by (intro quiet_intros)

lemma quiet_show_remotes: "quiet w (show_remotes d)"
  unfolding show_remotes_def by (intro quiet_intros)

lemma quiet_show: "quiet w (show_server_information d)"
  unfolding show_server_information_def
  by (intro quiet_intros quiet_show_packages quiet_show_remotes)

lemma quiet_connectivity: "quiet w (check_connectivity w)"
  unfolding check_connectivity_def
  by (intro quiet_intros quiet_send) (simp add: is_submission_def connectivity_request_def)

lemma quiet_token: "quiet w (obtain_token w)"
  unfolding obtain_token_def get_auth_token_none_def
  by (intro quiet_intros quiet_send) (simp add: is_submission_def auth_request_def)

lemma quiet_prologue: "quiet w (publish_prologue w)"
  unfolding publish_prologue_def
  by (intro quiet_intros quiet_validate quiet_show quiet_connectivity quiet_token)

lemma quiet_epilogue: "quiet w (publish_epilogue w nm result)"
  unfolding publish_epilogue_def get_server_info_def
  by (intro quiet_intros quiet_send) (simp add: is_submission_def)

lemma sent_publish_server:
  "sent (snd (publish_server w registry d tok s)) = sent s @ [publish_request w registry d tok]"
  by (simp add: publish_server_def run_defs split: reply.splits option.splits)

lemma sent_submit:
  "sent (snd (submit w d nm ver tok s))
     = sent s @ [if update_mode w then update_request w (registry_of w) nm ver d tok
                 else publish_request w (registry_of w) d tok]"
  by (simp add: submit_def seq_def bnd_def[of "emit _"] emit_def sent_publish_server
      sent_update_server_version)

lemma submissions_submit:
  "submissions w (snd (submit w d nm ver tok s))
     = submissions w s @ [if update_mode w then (PUT, update_endpoint w (registry_of w) nm ver)
                          else (POST, registry_of w @ ''/v0.1/publish'')]"
  by (simp add: submissions_def sent_submit is_submission_def update_request_def
      publish_request_def update_endpoint_def)

text \<open>
  Claim C1. In every run of the publish script, the requests that write to the
  registry (every request that is not a GET, the token request apart) are: none
  when a step before the submission raises; otherwise exactly one, which in update
  mode is a PUT to \<^verbatim>\<open>{registry_url}/v0.1/servers/{name}/versions/{version}\<close> (name and
  version as interpolated from the descriptor) and otherwise a POST to
  \<^verbatim>\<open>{registry_url}/v0.1/publish\<close>.
\<close>

theorem publish_mode_selection:
  "submissions w (snd (publish_main w start)) =
     (case fst (publish_prologue w start) of
        Inl e \<Rightarrow> []
      | Inr (server_data, server_name, server_version, auth_token) \<Rightarrow>
          [if update_mode w
           then (PUT, registry_of w @ ''/v0.1/servers/'' @ py_str w server_name
                        @ ''/versions/'' @ py_str w server_version)
           else (POST, registry_of w @ ''/v0.1/publish'')])"
proof -
  obtain r s1 where p: "publish_prologue w start = (r, s1)"
    by (cases "publish_prologue w start")
  have s1: "submissions w s1 = []"
    using quiet_prologue[of w] p by (auto simp: quiet_def submissions_def start_def dest: spec[of _ start])
  show ?thesis
  proof (cases r)
    case (Inl e)
    then show ?thesis using p s1 by (simp add: publish_main_def bnd_def)
  next
    case (Inr q)
    obtain d nm ver tok where q: "q = (d, nm, ver, tok)" by (cases q)
    obtain r2 s2 where sub: "submit w d nm ver tok s1 = (r2, s2)"
      by (cases "submit w d nm ver tok s1")
    have s2: "submissions w s2
        = [if update_mode w then (PUT, update_endpoint w (registry_of w) nm ver)
           else (POST, registry_of w @ ''/v0.1/publish'')]"
      using submissions_submit[of w d nm ver tok s1] sub s1 by simp
    have "submissions w (snd (publish_main w start)) = submissions w s2"
    proof (cases r2)
      case (Inl e)
      then show ?thesis using p Inr q sub by (simp add: publish_main_def bnd_def)
    next
      case (Inr result)
      have "publish_main w start = publish_epilogue w nm result s2"
        using p \<open>r = Inr q\<close> q sub Inr by (simp add: publish_main_def bnd_def)
      then show ?thesis
        using quiet_epilogue[of w nm result] by (simp add: quiet_def)
    qed
    then show ?thesis
      using s2 p Inr q by (simp add: update_endpoint_def)
  qed
qed

lemmas world_defs =
  server_json_path_def registry_of_def env_token_def update_mode_def auto_auth_def env_get_def
  lower_def

lemmas publish_defs =
  publish_main_def publish_prologue_def validate_server_json_def show_server_information_def
  show_packages_def show_remotes_def check_connectivity_def obtain_token_def submit_def
  publish_server_def update_server_version_def publish_epilogue_def get_server_info_def

lemma demo_prologue:
  "publish_prologue (demo_world mode code) start
     = (Inr (demo_descriptor, JStr ''ns/srv'', JStr ''1.0.0'', JNull),
        snd (publish_prologue (demo_world mode code) start))"
  by (simp add: publish_defs run_defs world_defs demo_world_def demo_descriptor_def
      schema_request_def connectivity_request_def start_def)


theorem publish_mode_selection_witness:
  "submissions (demo_world ''true'' 200) (snd (publish_main (demo_world ''true'' 200) start))
     = [(PUT, ''http://localhost:8080/v0.1/servers/ns/srv/versions/1.0.0'')]
   \<and> submissions (demo_world ''false'' 201) (snd (publish_main (demo_world ''false'' 201) start))
     = [(POST, ''http://localhost:8080/v0.1/publish'')]"
proof -
  have p: "fst (publish_prologue (demo_world mode code) start)
             = Inr (demo_descriptor, JStr ''ns/srv'', JStr ''1.0.0'', JNull)" for mode code
    using demo_prologue [of mode code] by (metis fst_conv)
  have r: "registry_of (demo_world mode code) = ''http://localhost:8080''" for mode code
    by (simp add: world_defs demo_world_def)
  have u: "update_mode (demo_world ''true'' 200)" "\<not> update_mode (demo_world ''false'' 201)"
    by (simp_all add: world_defs demo_world_def)
  show ?thesis
    using publish_mode_selection [of "demo_world ''true'' 200"]
      publish_mode_selection [of "demo_world ''false'' 201"]
    by (simp add: p r u py_str_def)
qed

text \<open>
  Claim C2. When the descriptor file loads, the schema is fetched, and the descriptor
  does not validate against it, the publish script exits with code 1, and the only
  request of the run is the GET of the schema: no POST and no PUT is made.
\<close>

theorem invalid_descriptor_aborts_before_submission:
  assumes "load_json w (server_json_path w) = Inr d"
    and "network w [] schema_request = Reply resp"
    and "\<not> (400 \<le> status_code resp \<and> status_code resp < 600)"
    and "body resp = Some schema"
    and "\<not> conforms w d schema"
  shows "fst (publish_script w) = 1
       \<and> sent (snd (publish_script w)) = [schema_request]
       \<and> submissions w (snd (publish_script w)) = []"
proof -
  let ?s0 = "start\<lparr>out := out start @
               [Say ''MCP Server Publisher - REST API Mode'' [],
                Say ''Configuration:'' [],
                Say ''Server JSON:'' [JStr (server_json_path w)],
                Say ''Registry URL:'' [JStr (registry_of w)],
                Say ''Auth Token:''
                  [JStr (if truthy (env_token w) then ''Set (from env)'' else ''Not set'')],
                Say ''Auto Auth:'' [JBool (auto_auth w)],
                Say ''Update Mode:'' [JBool (update_mode w)]]\<rparr>"
  have "network w (sent ?s0) schema_request = Reply resp"
    using assms(2) by (simp add: start_def)
  then have v: "validate_server_json w (server_json_path w) ?s0
          = (Inl InvalidDescriptor,
             ?s0\<lparr>sent := sent ?s0 @ [schema_request],
                  out := out ?s0 @ [Say ''Validating server.json...'' []]\<rparr>)"
    using assms by (simp add: validate_server_json_def run_defs)
  have "publish_prologue w start
          = (Inl InvalidDescriptor,
             ?s0\<lparr>sent := sent ?s0 @ [schema_request],
                  out := out ?s0 @ [Say ''Validating server.json...'' []]\<rparr>)"
    unfolding publish_prologue_def seq_def
    by (subst bnd_def, subst emit_def, simp only: prod.case sum.case, subst bnd_def, subst v)
       simp
  then have "publish_script w
          = (1, ?s0\<lparr>sent := sent ?s0 @ [schema_request],
                  out := out ?s0 @ [Say ''Validating server.json...'' []]\<rparr>)"
    by (simp add: publish_script_def publish_main_def bnd_def)
  then show ?thesis
    by (simp add: submissions_def is_submission_def schema_request_def start_def)
qed

theorem invalid_descriptor_aborts_before_submission_witness:
  "load_json rejecting_world (server_json_path rejecting_world)
     = Inr (JObj [(''version'', JStr ''1.0.0'')])
   \<and> network rejecting_world [] schema_request
     = Reply \<lparr>status_code = 200, body = Some (JObj [])\<rparr>
   \<and> \<not> conforms rejecting_world (JObj [(''version'', JStr ''1.0.0'')]) (JObj [])
   \<and> fst (publish_script rejecting_world) = 1
   \<and> sent (snd (publish_script rejecting_world)) = [schema_request]
   \<and> submissions rejecting_world (snd (publish_script rejecting_world)) = []"
proof -
  have 1: "load_json rejecting_world (server_json_path rejecting_world)
             = Inr (JObj [(''version'', JStr ''1.0.0'')])"
    and 2: "network rejecting_world [] schema_request
             = Reply \<lparr>status_code = 200, body = Some (JObj [])\<rparr>"
    and 3: "\<not> (400 \<le> status_code \<lparr>status_code = 200, body = Some (JObj [])\<rparr>
              \<and> status_code \<lparr>status_code = 200, body = Some (JObj [])\<rparr> < 600)"
    and 4: "body \<lparr>status_code = 200, body = Some (JObj [])\<rparr> = Some (JObj [])"
    and 5: "\<not> conforms rejecting_world (JObj [(''version'', JStr ''1.0.0'')]) (JObj [])"
    by (simp_all add: rejecting_world_def)
  show ?thesis
    using 1 2 5 invalid_descriptor_aborts_before_submission [OF 1 2 3 4 5]
    by simp
qed

subsection \<open>The status of the submission\<close>

lemma publish_server_outcome:
  assumes "network w (sent s) (publish_request w registry d tok) = Reply resp"
    and "body resp = Some b"
  shows "publish_server w registry d tok s =
     (if status_code resp = 200 \<or> status_code resp = 201 then
        (Inr b, s\<lparr>sent := sent s @ [publish_request w registry d tok],
                  out := out s @ [Say ''Publishing to:'' [JStr (registry @ ''/v0.1/publish'')],
                                  Say ''Response Status:'' [JNum (status_code resp)],
                                  Say ''[OK] Successfully published!'' []]\<rparr>)
      else if 400 \<le> status_code resp \<and> status_code resp < 600 then
        (Inl (HTTPError (status_code resp)),
         s\<lparr>sent := sent s @ [publish_request w registry d tok],
           out := out s @ [Say ''Publishing to:'' [JStr (registry @ ''/v0.1/publish'')],
                           Say ''Response Status:'' [JNum (status_code resp)],
                           Say ''ERROR: Publishing failed with status'' [JNum (status_code resp)],
                           Say ''Error details:'' [b]]\<rparr>)
      else
        (Inr b, s\<lparr>sent := sent s @ [publish_request w registry d tok],
                  out := out s @ [Say ''Publishing to:'' [JStr (registry @ ''/v0.1/publish'')],
                                  Say ''Response Status:'' [JNum (status_code resp)],
                                  Say ''ERROR: Publishing failed with status'' [JNum (status_code resp)],
                                  Say ''Error details:'' [b],
                                  Say ''[OK] Successfully published!'' []]\<rparr>))"
  using assms by (simp add: publish_server_def run_defs)

lemma update_server_version_outcome:
  assumes "network w (sent s) (update_request w registry nm ver d tok) = Reply resp"
    and "body resp = Some b"
  shows "update_server_version w registry nm ver d tok s =
     (if status_code resp = 200 then
        (Inr b, s\<lparr>sent := sent s @ [update_request w registry nm ver d tok],
                  out := out s @ [Say ''Updating:'' [JStr (update_endpoint w registry nm ver)],
                                  Say ''Response Status:'' [JNum (status_code resp)],
                                  Say ''[OK] Successfully updated!'' []]\<rparr>)
      else if 400 \<le> status_code resp \<and> status_code resp < 600 then
        (Inl (HTTPError (status_code resp)),
         s\<lparr>sent := sent s @ [update_request w registry nm ver d tok],
           out := out s @ [Say ''Updating:'' [JStr (update_endpoint w registry nm ver)],
                           Say ''Response Status:'' [JNum (status_code resp)],
                           Say ''ERROR: Update failed with status'' [JNum (status_code resp)],
                           Say ''Error details:'' [b]]\<rparr>)
      else
        (Inr b, s\<lparr>sent := sent s @ [update_request w registry nm ver d tok],
                  out := out s @ [Say ''Updating:'' [JStr (update_endpoint w registry nm ver)],
                                  Say ''Response Status:'' [JNum (status_code resp)],
                                  Say ''ERROR: Update failed with status'' [JNum (status_code resp)],
                                  Say ''Error details:'' [b],
                                  Say ''[OK] Successfully updated!'' []]\<rparr>))"
  using assms by (simp add: update_server_version_def run_defs)

text \<open>
  Claim C7 fails on the code for a status that is neither accepted nor an HTTP error.
  \<^verbatim>\<open>publish_server\<close> and \<^verbatim>\<open>update_server_version\<close> print the error and then rely
  on \<^verbatim>\<open>raise_for_status\<close>, which raises for 400 to 599 only (the two lemmas above give
  every case). Evaluated on a registry that answers the POST with 202: the error
  lines are printed, nothing is raised, the success line follows, and the script
  exits with code 0. The same happens for the PUT answered with 201.
\<close>

theorem accepted_status_is_reported_as_error_and_success:
  "publish_server (demo_world ''false'' 202) ''http://localhost:8080'' demo_descriptor JNull start
     = (Inr (JObj []),
        \<lparr>sent = [publish_request (demo_world ''false'' 202) ''http://localhost:8080''
                   demo_descriptor JNull],
         out = [Say ''Publishing to:'' [JStr ''http://localhost:8080/v0.1/publish''],
                Say ''Response Status:'' [JNum 202],
                Say ''ERROR: Publishing failed with status'' [JNum 202],
                Say ''Error details:'' [JObj []],
                Say ''[OK] Successfully published!'' []]\<rparr>)
   \<and> fst (publish_script (demo_world ''false'' 202)) = 0
   \<and> update_server_version (demo_world ''true'' 201) ''http://localhost:8080''
        (JStr ''ns/srv'') (JStr ''1.0.0'') demo_descriptor JNull start
     = (Inr (JObj []),
        \<lparr>sent = [update_request (demo_world ''true'' 201) ''http://localhost:8080''
                   (JStr ''ns/srv'') (JStr ''1.0.0'') demo_descriptor JNull],
         out = [Say ''Updating:'' [JStr ''http://localhost:8080/v0.1/servers/ns/srv/versions/1.0.0''],
                Say ''Response Status:'' [JNum 201],
                Say ''ERROR: Update failed with status'' [JNum 201],
                Say ''Error details:'' [JObj []],
                Say ''[OK] Successfully updated!'' []]\<rparr>)
   \<and> fst (publish_script (demo_world ''true'' 201)) = 0"
proof -
  have a: "publish_server (demo_world ''false'' 202) ''http://localhost:8080'' demo_descriptor JNull start
     = (Inr (JObj []),
        \<lparr>sent = [publish_request (demo_world ''false'' 202) ''http://localhost:8080''
                   demo_descriptor JNull],
         out = [Say ''Publishing to:'' [JStr ''http://localhost:8080/v0.1/publish''],
                Say ''Response Status:'' [JNum 202],
                Say ''ERROR: Publishing failed with status'' [JNum 202],
                Say ''Error details:'' [JObj []],
                Say ''[OK] Successfully published!'' []]\<rparr>)"
    by (simp add: publish_server_def run_defs demo_world_def publish_request_def start_def)
  have b: "update_server_version (demo_world ''true'' 201) ''http://localhost:8080''
        (JStr ''ns/srv'') (JStr ''1.0.0'') demo_descriptor JNull start
     = (Inr (JObj []),
        \<lparr>sent = [update_request (demo_world ''true'' 201) ''http://localhost:8080''
                   (JStr ''ns/srv'') (JStr ''1.0.0'') demo_descriptor JNull],
         out = [Say ''Updating:'' [JStr ''http://localhost:8080/v0.1/servers/ns/srv/versions/1.0.0''],
                Say ''Response Status:'' [JNum 201],
                Say ''ERROR: Update failed with status'' [JNum 201],
                Say ''Error details:'' [JObj []],
                Say ''[OK] Successfully updated!'' []]\<rparr>)"
    by (simp add: update_server_version_def run_defs demo_world_def update_request_def
        update_endpoint_def py_str_def start_def)
  have c: "fst (publish_script (demo_world ''false'' 202)) = 0"
    by (simp add: publish_script_def publish_defs run_defs world_defs demo_world_def
        demo_descriptor_def schema_request_def connectivity_request_def publish_request_def
        start_def)
  have d: "fst (publish_script (demo_world ''true'' 201)) = 0"
    by (simp add: publish_script_def publish_defs run_defs world_defs demo_world_def
        demo_descriptor_def schema_request_def connectivity_request_def update_request_def
        update_endpoint_def py_str_def start_def)
  show ?thesis using a b c d by simp
qed

end
